theory Spec2Isabelle
  imports Complex_Main "HOL-Library.Word"
begin

section \<open>Location-bound messaging: data model\<close>

text \<open>
  The development embeds two modules of the repository: the attestation module
  (\<^verbatim>\<open>location.ts\<close>: distance, geofence, freshness, movement plausibility, continuous
  presence and the verification pipeline) and the crypto module (\<^verbatim>\<open>crypto.ts\<close>, backend
  and browser variant: HKDF, the location-bound key, AES-GCM wrapping).

  JavaScript numbers are read as follows. Timestamps and window bounds, which the source
  documents as Unix milliseconds, are \<^typ>\<open>int\<close>. Coordinates, radii, speed ceilings and
  durations in seconds, which the program receives, are finite and of type \<^typ>\<open>real\<close>.
  A number the program computes from a distance may be \<^verbatim>\<open>NaN\<close> and has the type
  \<open>number\<close> below. The double arithmetic of \<^verbatim>\<open>calculateDistance\<close> is the platform's:
  there a rounding changes the outcome in kind, since the rounded term \<open>a\<close> can exceed 1
  and \<^verbatim>\<open>Math.sqrt(1 - a)\<close> is then \<^verbatim>\<open>NaN\<close>. Elsewhere the rounding of a double is not
  modelled, and neither is overflow.
  Buffers and \<^verbatim>\<open>Uint8Array\<close>s are lists of 8-bit words.
\<close>

datatype number = NaN | Num real

text \<open>
  The comparisons \<^verbatim>\<open><=\<close> and \<^verbatim>\<open>>\<close> are false on \<^verbatim>\<open>NaN\<close>; \<^verbatim>\<open>Math.max\<close> and the
  division return \<^verbatim>\<open>NaN\<close> on \<^verbatim>\<open>NaN\<close>.
\<close>

fun number_le :: "number \<Rightarrow> real \<Rightarrow> bool" where
  "number_le NaN y = False"
| "number_le (Num x) y = (x \<le> y)"

fun number_gt :: "number \<Rightarrow> real \<Rightarrow> bool" where
  "number_gt NaN y = False"
| "number_gt (Num x) y = (x > y)"

fun number_max :: "number \<Rightarrow> number \<Rightarrow> number" where
  "number_max (Num x) (Num y) = Num (max x y)"
| "number_max x y = NaN"

fun number_div :: "number \<Rightarrow> real \<Rightarrow> number" where
  "number_div NaN y = NaN"
| "number_div (Num x) y = Num (x / y)"

type_synonym byte = "8 word"
type_synonym bytes = "byte list"

text \<open>
  Everything the two modules call but do not implement (TweetNaCl, the Node and Web Crypto
  primitives, the text codecs, the number formatting and the double arithmetic of the
  JavaScript runtime) is a field of one record of functions which every definition below
  takes as its first argument.

  \<open>nacl_util_decodeBase64\<close> is the decoder of \<^verbatim>\<open>tweetnacl-util\<close>, which raises on a string
  that is not base64 (\<open>None\<close>); \<open>base64_decode\<close> is the lenient decoder of the crypto
  module. \<open>double\<close> rounds the exact result of an arithmetic operation to a double,
  \<open>Math_sqrt\<close> is \<^verbatim>\<open>Math.sqrt\<close> on arguments that are not negative.
\<close>

record platform =
  nacl_sign_detached_verify :: "bytes \<Rightarrow> bytes \<Rightarrow> bytes \<Rightarrow> bool"
  nacl_util_decodeBase64 :: "string \<Rightarrow> bytes option"
  double :: "real \<Rightarrow> real"
  Math_PI :: real
  Math_sin :: "real \<Rightarrow> real"
  Math_cos :: "real \<Rightarrow> real"
  Math_sqrt :: "real \<Rightarrow> real"
  Math_atan2 :: "real \<Rightarrow> real \<Rightarrow> real"
  hmac_sha256 :: "bytes \<Rightarrow> bytes \<Rightarrow> bytes"
  aes256gcm_encrypt :: "bytes \<Rightarrow> bytes \<Rightarrow> bytes \<Rightarrow> bytes \<times> bytes"
  aes256gcm_decrypt :: "bytes \<Rightarrow> bytes \<Rightarrow> bytes \<Rightarrow> bytes \<Rightarrow> bytes option"
  utf8_encode :: "string \<Rightarrow> bytes"
  utf8_decode :: "bytes \<Rightarrow> string"
  base64_encode :: "bytes \<Rightarrow> string"
  base64_decode :: "string \<Rightarrow> bytes"
  toFixed6 :: "real \<Rightarrow> string"
  json_number :: "real \<Rightarrow> string"
  json_string :: "string \<Rightarrow> string"

text \<open>
  The location binding of a stored message, as \<^verbatim>\<open>ComposeMessage.tsx\<close> and
  \<^verbatim>\<open>MessageViewer.tsx\<close> declare it.
\<close>

record LocationBinding =
  latitude :: real
  longitude :: real
  radiusMeters :: real
  windowStart :: int
  windowEnd :: int
  nonce :: string

text \<open>
  The fields of \<^verbatim>\<open>StoredMessage\<close> which the cryptographic steps write and read; the
  identifier, the public keys and the metadata are left out.
\<close>

record StoredMessage =
  encryptedPayload :: "string option"
  payloadNonce :: "string option"
  payloadAuthTag :: "string option"
  wrappedKey :: "string option"
  wrappedKeyNonce :: "string option"
  wrappedKeyAuthTag :: "string option"
  locationBinding :: LocationBinding

record CellTowerInfo =
  mcc :: string
  mnc :: string
  lac :: string
  cellId :: string
  signalStrength :: "real option"

record LocationPoint =
  lat :: real
  lon :: real
  timestamp :: int

record LocationAttestation =
  deviceId :: string
  devicePublicKey :: string
  latitude :: real
  longitude :: real
  accuracy :: real
  timestamp :: int
  altitude :: "real option"
  heading :: "real option"
  speed :: "real option"
  wifiSSIDs :: "string list option"
  cellTowers :: "CellTowerInfo list option"
  movementHistory :: "LocationPoint list option"
  signature :: string

text \<open>
  The source reports a rejection as a string built from a template. The datatype has one
  constructor per template, in the order in which the source file contains them, carrying
  the numbers the template interpolates.
\<close>

datatype reason =
    InvalidSignature
  | AttestationTooOld real
  | OutsideTimeWindow
  | OutsideGeofence number real
  | ImpossibleSpeed number real
  | NoMovementHistory
  | InsufficientPresence real real

record VerificationResult =
  valid :: bool
  reason :: "reason option"
  attestation :: "LocationAttestation option"
  distance :: "number option"

record VerificationConfig =
  targetLat :: real
  targetLon :: real
  radiusMeters :: real
  windowStart :: int
  windowEnd :: int
  maxAttestationAgeSec :: "real option"
  requireContinuousPresence :: "bool option"
  continuousPresenceDurationSec :: "real option"
  maxSpeedMps :: "real option"

text \<open>
  The result of \<^verbatim>\<open>isWithinGeofence\<close>; its field \<^verbatim>\<open>within\<close> is named \<open>within_fence\<close>
  here, \<open>within\<close> being a reserved word of the topology library.
\<close>

record GeofenceResult =
  within_fence :: bool
  distance :: number

record PlausibilityResult =
  plausible :: bool
  reason :: "reason option"
  maxSpeed :: "number option"

record PresenceResult =
  verified :: bool
  reason :: "reason option"
  duration :: "real option"

section \<open>The attestation module\<close>

subsection \<open>Canonical payload and signature\<close>

datatype json = JString string | JNumber real

fun json_value :: "platform \<Rightarrow> json \<Rightarrow> string" where
  "json_value P (JString s) = json_string P s"
| "json_value P (JNumber x) = json_number P x"

fun json_members :: "platform \<Rightarrow> (string \<times> json) list \<Rightarrow> string" where
  "json_members P [] = []"
| "json_members P [(k, v)] = json_string P k @ '':'' @ json_value P v"
| "json_members P ((k, v) # kvs) =
     json_string P k @ '':'' @ json_value P v @ '','' @ json_members P kvs"

text \<open>\<^verbatim>\<open>JSON.stringify\<close> of an object literal: the members in the order of the literal.\<close>

definition JSON_stringify :: "platform \<Rightarrow> (string \<times> json) list \<Rightarrow> string" where
  "JSON_stringify P kvs = ''{'' @ json_members P kvs @ ''}''"

text \<open>
  \<^verbatim>\<open>verifySignature\<close> of \<^verbatim>\<open>crypto.ts\<close>. It raises where the library raises:
  \<^verbatim>\<open>util.decodeBase64\<close> on a signature or a key that is not base64, and
  \<^verbatim>\<open>nacl.sign.detached.verify\<close> on a signature that is not of 64 bytes or a key that is
  not of 32 bytes. Nothing between this function and \<^verbatim>\<open>verifyLocationAttestation\<close>
  catches the exception.
\<close>

datatype verify_error =
    InvalidEncodingRaised
  | BadSignatureSize
  | BadPublicKeySize

definition verifySignature ::
  "platform \<Rightarrow> string \<Rightarrow> string \<Rightarrow> string \<Rightarrow> verify_error + bool" where
  "verifySignature P message sig publicKey =
     (let msgBytes = utf8_encode P message
      in case nacl_util_decodeBase64 P sig of
           None \<Rightarrow> Inl InvalidEncodingRaised
         | Some sigBytes \<Rightarrow>
        (case nacl_util_decodeBase64 P publicKey of
           None \<Rightarrow> Inl InvalidEncodingRaised
         | Some pubKey \<Rightarrow>
             if length sigBytes \<noteq> 64 then Inl BadSignatureSize
             else if length pubKey \<noteq> 32 then Inl BadPublicKeySize
             else Inr (nacl_sign_detached_verify P msgBytes sigBytes pubKey)))"

definition verifyAttestationSignature ::
  "platform \<Rightarrow> LocationAttestation \<Rightarrow> verify_error + bool" where
  "verifyAttestationSignature P att =
     (let message = JSON_stringify P
            [(''deviceId'', JString (deviceId att)),
             (''lat'', JString (toFixed6 P (latitude att))),
             (''lon'', JString (toFixed6 P (longitude att))),
             (''accuracy'', JNumber (accuracy att)),
             (''timestamp'', JNumber (of_int (LocationAttestation.timestamp att)))]
      in verifySignature P message (signature att) (devicePublicKey att))"

subsection \<open>Distance and geofence\<close>

text \<open>
  \<^verbatim>\<open>Math.sqrt\<close> returns \<^verbatim>\<open>NaN\<close> on a negative argument, \<^verbatim>\<open>Math.atan2\<close> and the
  multiplication on \<^verbatim>\<open>NaN\<close>.
\<close>

definition js_sqrt :: "platform \<Rightarrow> real \<Rightarrow> number" where
  "js_sqrt P x = (if x < 0 then NaN else Num (Math_sqrt P x))"

fun js_atan2 :: "platform \<Rightarrow> number \<Rightarrow> number \<Rightarrow> number" where
  "js_atan2 P (Num y) (Num x) = Num (Math_atan2 P y x)"
| "js_atan2 P y x = NaN"

fun js_times :: "platform \<Rightarrow> real \<Rightarrow> number \<Rightarrow> number" where
  "js_times P k (Num x) = Num (double P (k * x))"
| "js_times P k NaN = NaN"

text \<open>
  The term \<open>a\<close> of \<^verbatim>\<open>calculateDistance\<close> as the doubles compute it: every operation
  rounds, the products associate to the left.
\<close>

definition haversine_a :: "platform \<Rightarrow> real \<Rightarrow> real \<Rightarrow> real \<Rightarrow> real \<Rightarrow> real" where
  "haversine_a P lat1 lon1 lat2 lon2 =
     (let phi1 = double P (double P (lat1 * Math_PI P) / 180);
          phi2 = double P (double P (lat2 * Math_PI P) / 180);
          dphi = double P (double P (double P (lat2 - lat1) * Math_PI P) / 180);
          dlambda = double P (double P (double P (lon2 - lon1) * Math_PI P) / 180)
      in double P
           (double P (Math_sin P (double P (dphi / 2)) * Math_sin P (double P (dphi / 2))) +
            double P
              (double P (double P (Math_cos P phi1 * Math_cos P phi2) *
                         Math_sin P (double P (dlambda / 2))) *
               Math_sin P (double P (dlambda / 2)))))"

definition calculateDistance :: "platform \<Rightarrow> real \<Rightarrow> real \<Rightarrow> real \<Rightarrow> real \<Rightarrow> number" where
  "calculateDistance P lat1 lon1 lat2 lon2 =
     (let R = 6371000;
          a = haversine_a P lat1 lon1 lat2 lon2;
          c = js_times P 2 (js_atan2 P (js_sqrt P a) (js_sqrt P (double P (1 - a))))
      in js_times P R c)"

definition isWithinGeofence ::
  "platform \<Rightarrow> real \<Rightarrow> real \<Rightarrow> real \<Rightarrow> real \<Rightarrow> real \<Rightarrow> GeofenceResult" where
  "isWithinGeofence P currentLat currentLon targetLat' targetLon' radiusMeters' =
     (let dist = calculateDistance P currentLat currentLon targetLat' targetLon'
      in \<lparr>within_fence = number_le dist radiusMeters', distance = dist\<rparr>)"

subsection \<open>Time window and freshness\<close>

definition isWithinTimeWindow :: "int \<Rightarrow> int \<Rightarrow> int \<Rightarrow> bool" where
  "isWithinTimeWindow currentTimestamp windowStart' windowEnd' \<longleftrightarrow>
     currentTimestamp \<ge> windowStart' \<and> currentTimestamp \<le> windowEnd'"

text \<open>
  \<^verbatim>\<open>Date.now()\<close> is the argument \<open>now\<close>. The default of \<open>maxAgeSec\<close> (300) applies
  when the caller passes no value.
\<close>

definition isAttestationFresh :: "int \<Rightarrow> int \<Rightarrow> real option \<Rightarrow> bool" where
  "isAttestationFresh now attestationTimestamp maxAgeSec' =
     (let maxAgeSec = (case maxAgeSec' of None \<Rightarrow> 300 | Some m \<Rightarrow> m);
          ageMs = now - attestationTimestamp
      in ageMs \<ge> 0 \<and> of_int ageMs \<le> maxAgeSec * 1000)"

subsection \<open>Anti-spoofing checks\<close>

definition calculateSpeed :: "platform \<Rightarrow> LocationPoint \<Rightarrow> LocationPoint \<Rightarrow> number" where
  "calculateSpeed P point1 point2 =
     (let dist = calculateDistance P (lat point1) (lon point1) (lat point2) (lon point2);
          timeDelta = of_int (LocationPoint.timestamp point2 - LocationPoint.timestamp point1) / 1000
      in if timeDelta \<le> 0 then Num 0 else number_div dist timeDelta)"

text \<open>
  \<^verbatim>\<open>[...movementHistory].sort((a, b) => a.timestamp - b.timestamp)\<close>: a stable sort on the
  timestamp.
\<close>

definition sort_by_timestamp :: "LocationPoint list \<Rightarrow> LocationPoint list" where
  "sort_by_timestamp movementHistory' = sort_key LocationPoint.timestamp movementHistory'"

text \<open>
  The loop \<^verbatim>\<open>for (let i = 1; i < sorted.length; i++)\<close> of \<^verbatim>\<open>checkMovementPlausibility\<close>:
  the list argument starts at \<open>sorted[i - 1]\<close>, the second argument is the running
  \<open>maxSpeed\<close>.
\<close>

fun plausibility_loop ::
  "platform \<Rightarrow> real \<Rightarrow> number \<Rightarrow> LocationPoint list \<Rightarrow> PlausibilityResult" where
  "plausibility_loop P maxSpeedMps' maxSpeed' (p # q # rest) =
     (let speed = calculateSpeed P p q;
          maxSpeed'' = number_max maxSpeed' speed
      in if number_gt speed maxSpeedMps'
         then \<lparr>plausible = False,
               reason = Some (ImpossibleSpeed speed maxSpeedMps'),
               maxSpeed = Some maxSpeed''\<rparr>
         else plausibility_loop P maxSpeedMps' maxSpeed'' (q # rest))"
| "plausibility_loop P maxSpeedMps' maxSpeed' rest =
     \<lparr>plausible = True, reason = None, maxSpeed = Some maxSpeed'\<rparr>"

text \<open>
  The parameter is typed \<^verbatim>\<open>LocationPoint[]\<close>, so the \<^verbatim>\<open>!movementHistory\<close> half of the
  first guard cannot fire on a typed argument; the length half is kept.
\<close>

definition checkMovementPlausibility ::
  "platform \<Rightarrow> LocationPoint list \<Rightarrow> real option \<Rightarrow> PlausibilityResult" where
  "checkMovementPlausibility P movementHistory' maxSpeedMps' =
     (let maxSpeedMps = (case maxSpeedMps' of None \<Rightarrow> 200 | Some m \<Rightarrow> m)
      in if length movementHistory' < 2
         then \<lparr>plausible = True, reason = None, maxSpeed = None\<rparr>
         else plausibility_loop P maxSpeedMps (Num 0) (sort_by_timestamp movementHistory'))"

text \<open>
  The loop of \<^verbatim>\<open>verifyContinuousPresence\<close>; the state is the pair
  \<open>(windowStart, windowDuration)\<close>, \<open>-1\<close> being the source's marker for "no window open".
\<close>

fun presence_loop ::
  "platform \<Rightarrow> real \<Rightarrow> real \<Rightarrow> real \<Rightarrow> int \<times> int \<Rightarrow> LocationPoint list \<Rightarrow> int \<times> int" where
  "presence_loop P tLat tLon r (windowStart', windowDuration) [] =
     (windowStart', windowDuration)"
| "presence_loop P tLat tLon r (windowStart', windowDuration) (point # rest) =
     (if within_fence (isWithinGeofence P (lat point) (lon point) tLat tLon r)
      then (let windowStart'' =
                  (if windowStart' = -1 then LocationPoint.timestamp point else windowStart')
            in presence_loop P tLat tLon r
                 (windowStart'', LocationPoint.timestamp point - windowStart'') rest)
      else presence_loop P tLat tLon r (-1, 0) rest)"

definition verifyContinuousPresence ::
  "platform \<Rightarrow> LocationPoint list \<Rightarrow> real \<Rightarrow> real \<Rightarrow> real \<Rightarrow> real \<Rightarrow> PresenceResult" where
  "verifyContinuousPresence P movementHistory' targetLat' targetLon' radiusMeters'
       requiredDurationSec =
     (if length movementHistory' = 0
      then \<lparr>verified = False, reason = Some NoMovementHistory, duration = None\<rparr>
      else
        (let sorted' = sort_by_timestamp movementHistory';
             (windowStart', windowDuration) =
               presence_loop P targetLat' targetLon' radiusMeters' (-1, 0) sorted';
             durationSec = of_int windowDuration / 1000
         in if durationSec \<ge> requiredDurationSec
            then \<lparr>verified = True, reason = None, duration = Some durationSec\<rparr>
            else \<lparr>verified = False,
                  reason = Some (InsufficientPresence durationSec requiredDurationSec),
                  duration = Some durationSec\<rparr>))"

subsection \<open>The verification pipeline\<close>

text \<open>
  Each \<^verbatim>\<open>return\<close> of the source is one branch; an exception raised by the signature
  check leaves the function (\<open>Inl\<close>). Checks 5 and 6 stand inside a condition; where the
  condition is false the model binds a result that passes, so that the check does not
  reject.
\<close>

definition verifyLocationAttestation ::
  "platform \<Rightarrow> int \<Rightarrow> LocationAttestation \<Rightarrow> VerificationConfig \<Rightarrow>
     verify_error + VerificationResult" where
  "verifyLocationAttestation P now att config =
     (case verifyAttestationSignature P att of
        Inl e \<Rightarrow> Inl e
      | Inr signatureValid \<Rightarrow> Inr
     (if \<not> signatureValid
      then \<lparr>valid = False, reason = Some InvalidSignature, attestation = None,
            distance = None\<rparr>
      else
        let maxAge = (case maxAttestationAgeSec config of None \<Rightarrow> 300 | Some m \<Rightarrow> m)
        in if \<not> isAttestationFresh now (LocationAttestation.timestamp att) (Some maxAge)
        then \<lparr>valid = False, reason = Some (AttestationTooOld maxAge),
              attestation = Some att, distance = None\<rparr>
        else if \<not> isWithinTimeWindow (LocationAttestation.timestamp att)
                    (windowStart config) (windowEnd config)
        then \<lparr>valid = False, reason = Some OutsideTimeWindow, attestation = Some att,
              distance = None\<rparr>
        else
          let g = isWithinGeofence P (latitude att) (longitude att)
                    (targetLat config) (targetLon config) (radiusMeters config);
              dist = GeofenceResult.distance g
          in if \<not> within_fence g
          then \<lparr>valid = False,
                reason = Some (OutsideGeofence dist (radiusMeters config)),
                attestation = Some att, distance = Some dist\<rparr>
          else
            let plausibility =
                  (case movementHistory att of
                     Some h \<Rightarrow>
                       if length h \<ge> 2
                       then checkMovementPlausibility P h
                              (Some (case maxSpeedMps config of None \<Rightarrow> 200 | Some m \<Rightarrow> m))
                       else \<lparr>plausible = True, reason = None, maxSpeed = None\<rparr>
                   | None \<Rightarrow> \<lparr>plausible = True, reason = None, maxSpeed = None\<rparr>)
            in if \<not> plausible plausibility
            then \<lparr>valid = False, reason = PlausibilityResult.reason plausibility,
                  attestation = Some att, distance = Some dist\<rparr>
            else
              let presence =
                    (case movementHistory att of
                       Some h \<Rightarrow>
                         if requireContinuousPresence config = Some True
                         then verifyContinuousPresence P h (targetLat config)
                                (targetLon config) (radiusMeters config)
                                (case continuousPresenceDurationSec config of
                                   None \<Rightarrow> 30 | Some d \<Rightarrow> d)
                         else \<lparr>verified = True, reason = None, duration = None\<rparr>
                     | None \<Rightarrow> \<lparr>verified = True, reason = None, duration = None\<rparr>)
              in if \<not> verified presence
              then \<lparr>valid = False, reason = PresenceResult.reason presence,
                    attestation = Some att, distance = Some dist\<rparr>
              else \<lparr>valid = True, reason = None, attestation = Some att,
                    distance = Some dist\<rparr>))"

section \<open>The crypto module\<close>

text \<open>
  The backend module works on Node Buffers and the browser module on \<^verbatim>\<open>Uint8Array\<close>s; the
  two agree function by function, so one embedding serves for both. The backend feeds the
  HMAC in three \<^verbatim>\<open>update\<close> calls, the browser module builds the concatenated input first.
\<close>

datatype crypto_error =
    OutputLengthTooLarge
  | InvalidEncoding
  | AuthenticationFailure

subsection \<open>HKDF\<close>

definition hkdfExtract :: "platform \<Rightarrow> bytes \<Rightarrow> bytes \<Rightarrow> bytes" where
  "hkdfExtract P salt ikm = hmac_sha256 P salt ikm"

text \<open>
  The loop \<^verbatim>\<open>for (let i = 1; i <= n; i++)\<close> of \<^verbatim>\<open>hkdfExpand\<close>, with the loop variables
  \<open>i\<close>, \<open>t\<close> and \<open>okm\<close>. A byte array stores \<open>i\<close> modulo 256.
\<close>

function hkdfExpand_loop ::
  "platform \<Rightarrow> bytes \<Rightarrow> bytes \<Rightarrow> int \<Rightarrow> int \<Rightarrow> bytes \<Rightarrow> bytes \<Rightarrow> bytes" where
  "hkdfExpand_loop P prk info n i t okm =
     (if i \<le> n
      then (let t' = hmac_sha256 P prk (t @ info @ [word_of_int i]);
                okm' = okm @ t'
            in hkdfExpand_loop P prk info n (i + 1) t' okm')
      else okm)"
  by pat_completeness auto
termination
  by (relation "measure (\<lambda>(P, prk, info, n, i, t, okm). nat (n + 1 - i))") auto

declare hkdfExpand_loop.simps [simp del]

text \<open>\<^verbatim>\<open>buf.slice(0, end)\<close>: a negative \<open>end\<close> counts from the end of the buffer.\<close>

definition slice0 :: "'a list \<Rightarrow> int \<Rightarrow> 'a list" where
  "slice0 buf end' =
     (if end' < 0 then take (nat (int (length buf) + end')) buf else take (nat end') buf)"

definition hkdfExpand :: "platform \<Rightarrow> bytes \<Rightarrow> bytes \<Rightarrow> int \<Rightarrow> crypto_error + bytes" where
  "hkdfExpand P prk info length' =
     (let hashLen = 32;
          n = \<lceil>(of_int length' :: real) / hashLen\<rceil>
      in if n > 255 then Inl OutputLengthTooLarge
         else Inr (slice0 (hkdfExpand_loop P prk info n 1 [] []) length'))"

text \<open>An argument of type \<^verbatim>\<open>Buffer | string\<close>.\<close>

datatype buffer_or_string = Buffer bytes | String string

definition hkdf ::
  "platform \<Rightarrow> buffer_or_string \<Rightarrow> buffer_or_string \<Rightarrow> buffer_or_string \<Rightarrow> int \<Rightarrow>
     crypto_error + bytes" where
  "hkdf P ikm salt info length' =
     (let ikmBuf = (case ikm of String s \<Rightarrow> base64_decode P s | Buffer b \<Rightarrow> b);
          saltBuf = (case salt of String s \<Rightarrow> utf8_encode P s | Buffer b \<Rightarrow> b);
          infoBuf = (case info of String s \<Rightarrow> utf8_encode P s | Buffer b \<Rightarrow> b);
          prk = hkdfExtract P saltBuf ikmBuf
      in hkdfExpand P prk infoBuf length')"

definition deriveLocationBoundKey ::
  "platform \<Rightarrow> string \<Rightarrow> real \<Rightarrow> real \<Rightarrow> real \<Rightarrow> int \<Rightarrow> int \<Rightarrow> string \<Rightarrow> crypto_error + bytes" where
  "deriveLocationBoundKey P sharedSecret lat' lon' radiusMeters' windowStart' windowEnd' nonce' =
     (let locationInfo = JSON_stringify P
            [(''lat'', JString (toFixed6 P lat')),
             (''lon'', JString (toFixed6 P lon')),
             (''radius'', JNumber radiusMeters'),
             (''start'', JNumber (of_int windowStart')),
             (''end'', JNumber (of_int windowEnd')),
             (''nonce'', JString nonce')]
      in hkdf P (String sharedSecret) (String ''LocationBoundMessaging-v1'')
           (String locationInfo) 32)"

subsection \<open>Random bytes\<close>

text \<open>
  \<^verbatim>\<open>randomBytes(n)\<close> and \<^verbatim>\<open>crypto.getRandomValues(new Uint8Array(n))\<close> read the next \<open>n\<close>
  bytes of a fixed sequence and move the cursor.
\<close>

record random_source =
  bytes_at :: "nat \<Rightarrow> byte"
  cursor :: nat

definition randomBytes :: "nat \<Rightarrow> random_source \<Rightarrow> bytes \<times> random_source" where
  "randomBytes n rng =
     (map (bytes_at rng) [cursor rng ..< cursor rng + n], rng\<lparr>cursor := cursor rng + n\<rparr>)"

definition generateAesKey :: "random_source \<Rightarrow> bytes \<times> random_source" where
  "generateAesKey rng = randomBytes 32 rng"

definition generateRandomBytes :: "platform \<Rightarrow> nat \<Rightarrow> random_source \<Rightarrow> string \<times> random_source" where
  "generateRandomBytes P n rng =
     (let (b, rng') = randomBytes n rng in (base64_encode P b, rng'))"

definition generateNonce :: "platform \<Rightarrow> random_source \<Rightarrow> string \<times> random_source" where
  "generateNonce P rng = generateRandomBytes P 16 rng"

subsection \<open>AES-GCM and key wrapping\<close>

text \<open>
  An object literal is a map from property names to values; reading a property the object
  does not have gives \<^verbatim>\<open>undefined\<close>, here \<open>None\<close>. A value that may be \<^verbatim>\<open>undefined\<close>
  where the source's type says \<^verbatim>\<open>string\<close> is a \<^typ>\<open>string option\<close>.
\<close>

type_synonym js_object = "string \<rightharpoonup> string"

definition aesGcmEncrypt ::
  "platform \<Rightarrow> string \<Rightarrow> bytes \<Rightarrow> random_source \<Rightarrow> js_object \<times> random_source" where
  "aesGcmEncrypt P plaintext key rng =
     (let (nonce', rng') = randomBytes 12 rng;
          (ciphertext', authTag') = aes256gcm_encrypt P key nonce' (utf8_encode P plaintext)
      in ([''ciphertext'' \<mapsto> base64_encode P ciphertext',
           ''nonce'' \<mapsto> base64_encode P nonce',
           ''authTag'' \<mapsto> base64_encode P authTag'],
          rng'))"

text \<open>
  Both base64 decoders (\<^verbatim>\<open>util.decodeBase64\<close>, \<^verbatim>\<open>Buffer.from(s, 'base64')\<close>) raise a
  \<^verbatim>\<open>TypeError\<close> on \<^verbatim>\<open>undefined\<close>. On a string the decoder of the platform is taken to
  be total.
\<close>

definition decodeBase64 :: "platform \<Rightarrow> string option \<Rightarrow> crypto_error + bytes" where
  "decodeBase64 P s = (case s of None \<Rightarrow> Inl InvalidEncoding | Some s' \<Rightarrow> Inr (base64_decode P s'))"

definition aesGcmDecrypt ::
  "platform \<Rightarrow> string option \<Rightarrow> bytes \<Rightarrow> string option \<Rightarrow> string option \<Rightarrow>
     crypto_error + string" where
  "aesGcmDecrypt P ciphertext' key nonce' authTag' =
     (case decodeBase64 P ciphertext' of
        Inl e \<Rightarrow> Inl e
      | Inr ciphertextBytes \<Rightarrow>
     (case decodeBase64 P nonce' of
        Inl e \<Rightarrow> Inl e
      | Inr nonceBytes \<Rightarrow>
     (case decodeBase64 P authTag' of
        Inl e \<Rightarrow> Inl e
      | Inr authTagBytes \<Rightarrow>
     (case aes256gcm_decrypt P key nonceBytes ciphertextBytes authTagBytes of
        None \<Rightarrow> Inl AuthenticationFailure
      | Some decrypted \<Rightarrow> Inr (utf8_decode P decrypted)))))"

text \<open>
  \<^verbatim>\<open>wrapKey\<close> returns the object of \<^verbatim>\<open>aesGcmEncrypt\<close> as it is, although its declared
  result type names the properties \<^verbatim>\<open>wrappedKey\<close>, \<^verbatim>\<open>nonce\<close> and \<^verbatim>\<open>authTag\<close>.
\<close>

definition wrapKey ::
  "platform \<Rightarrow> bytes \<Rightarrow> bytes \<Rightarrow> random_source \<Rightarrow> js_object \<times> random_source" where
  "wrapKey P keyToWrap wrappingKey rng =
     (let keyBase64 = base64_encode P keyToWrap
      in aesGcmEncrypt P keyBase64 wrappingKey rng)"

definition unwrapKey ::
  "platform \<Rightarrow> string option \<Rightarrow> bytes \<Rightarrow> string option \<Rightarrow> string option \<Rightarrow>
     crypto_error + bytes" where
  "unwrapKey P wrappedKey' wrappingKey nonce' authTag' =
     (case aesGcmDecrypt P wrappedKey' wrappingKey nonce' authTag' of
        Inl e \<Rightarrow> Inl e
      | Inr keyBase64 \<Rightarrow> Inr (base64_decode P keyBase64))"

subsection \<open>Sealing and unsealing a message\<close>

text \<open>
  The cryptographic steps of \<^verbatim>\<open>handleEncrypt\<close> (\<^verbatim>\<open>ComposeMessage.tsx\<close>), from the shared
  secret on: the key agreement and the upload are left out, \<^verbatim>\<open>Date.now()\<close> is \<open>now\<close>.
  The derivation of the location-bound key cannot fail at length 32; the model passes its
  error on all the same.
\<close>

definition handleEncrypt ::
  "platform \<Rightarrow> string \<Rightarrow> string \<Rightarrow> real \<Rightarrow> real \<Rightarrow> real \<Rightarrow> int \<Rightarrow> int \<Rightarrow> random_source \<Rightarrow>
     crypto_error + StoredMessage" where
  "handleEncrypt P message sharedSecret coordLat coordLon radius now windowHours rng0 =
     (let (messageKey, rng1) = generateAesKey rng0;
          (payload, rng2) = aesGcmEncrypt P message messageKey rng1;
          windowStart' = now;
          windowEnd' = now + (windowHours * 60 * 60 * 1000);
          (keyNonce, rng3) = generateNonce P rng2
      in case deriveLocationBoundKey P sharedSecret coordLat coordLon radius
                windowStart' windowEnd' keyNonce of
           Inl e \<Rightarrow> Inl e
         | Inr locationBoundKey \<Rightarrow>
             (let (wrapped, rng4) = wrapKey P messageKey locationBoundKey rng3
              in Inr \<lparr>encryptedPayload = payload ''ciphertext'',
                       payloadNonce = payload ''nonce'',
                       payloadAuthTag = payload ''authTag'',
                       wrappedKey = wrapped ''wrappedKey'',
                       wrappedKeyNonce = wrapped ''nonce'',
                       wrappedKeyAuthTag = wrapped ''authTag'',
                       locationBinding =
                         \<lparr>LocationBinding.latitude = coordLat, longitude = coordLon, radiusMeters = radius,
                          windowStart = windowStart', windowEnd = windowEnd',
                          nonce = keyNonce\<rparr>\<rparr>))"

datatype unlock_error = TooFarFromTarget number | DecryptionFailed crypto_error

text \<open>
  \<^verbatim>\<open>handleUnlock\<close> (\<^verbatim>\<open>MessageViewer.tsx\<close>), from the distance gate on, with the shared
  secret passed in.
\<close>

definition handleUnlock ::
  "platform \<Rightarrow> StoredMessage \<Rightarrow> string \<Rightarrow> real \<Rightarrow> real \<Rightarrow> unlock_error + string" where
  "handleUnlock P message sharedSecret userLat userLon =
     (let binding = locationBinding message;
          dist = calculateDistance P userLat userLon
                   (LocationBinding.latitude binding) (LocationBinding.longitude binding)
      in if number_gt dist (LocationBinding.radiusMeters binding)
         then Inl (TooFarFromTarget dist)
         else
           (case deriveLocationBoundKey P sharedSecret
                   (LocationBinding.latitude binding) (LocationBinding.longitude binding)
                   (LocationBinding.radiusMeters binding)
                   (LocationBinding.windowStart binding) (LocationBinding.windowEnd binding)
                   (nonce binding) of
              Inl e \<Rightarrow> Inl (DecryptionFailed e)
            | Inr locationBoundKey \<Rightarrow>
           (case unwrapKey P (wrappedKey message) locationBoundKey
                   (wrappedKeyNonce message) (wrappedKeyAuthTag message) of
              Inl e \<Rightarrow> Inl (DecryptionFailed e)
            | Inr messageKey \<Rightarrow>
           (case aesGcmDecrypt P (encryptedPayload message) messageKey
                   (payloadNonce message) (payloadAuthTag message) of
              Inl e \<Rightarrow> Inl (DecryptionFailed e)
            | Inr plaintext \<Rightarrow> Inr plaintext))))"

section \<open>Reference definitions\<close>

text \<open>
  The definitions of this section are not translations of source functions: they write
  down what the specification says, for comparison with the embedding above.
\<close>

subsection \<open>The pipeline as an ordered list of stages\<close>

datatype stage =
    SignatureStage
  | FreshnessStage
  | TimeWindowStage
  | GeofenceStage
  | MovementStage
  | PresenceStage

definition stages :: "stage list" where
  "stages = [SignatureStage, FreshnessStage, TimeWindowStage, GeofenceStage, MovementStage,
     PresenceStage]"

definition config_maxAge :: "VerificationConfig \<Rightarrow> real" where
  "config_maxAge config = (case maxAttestationAgeSec config of None \<Rightarrow> 300 | Some m \<Rightarrow> m)"

definition geofence_distance ::
  "platform \<Rightarrow> LocationAttestation \<Rightarrow> VerificationConfig \<Rightarrow> number" where
  "geofence_distance P att config =
     calculateDistance P (latitude att) (longitude att) (targetLat config) (targetLon config)"

definition movement_result ::
  "platform \<Rightarrow> LocationAttestation \<Rightarrow> VerificationConfig \<Rightarrow> PlausibilityResult" where
  "movement_result P att config =
     checkMovementPlausibility P (case movementHistory att of None \<Rightarrow> [] | Some h \<Rightarrow> h)
       (Some (case maxSpeedMps config of None \<Rightarrow> 200 | Some m \<Rightarrow> m))"

definition presence_result ::
  "platform \<Rightarrow> LocationAttestation \<Rightarrow> VerificationConfig \<Rightarrow> PresenceResult" where
  "presence_result P att config =
     verifyContinuousPresence P (case movementHistory att of None \<Rightarrow> [] | Some h \<Rightarrow> h)
       (targetLat config) (targetLon config) (radiusMeters config)
       (case continuousPresenceDurationSec config of None \<Rightarrow> 30 | Some d \<Rightarrow> d)"

text \<open>
  Whether a stage, taken on its own, lets the attestation through. The signature stage
  passes when the signature check returns true; it does not pass when the check returns
  false or raises.
\<close>

fun stage_passes ::
  "platform \<Rightarrow> int \<Rightarrow> LocationAttestation \<Rightarrow> VerificationConfig \<Rightarrow> stage \<Rightarrow> bool" where
  "stage_passes P now att config SignatureStage =
     (verifyAttestationSignature P att = Inr True)"
| "stage_passes P now att config FreshnessStage =
     (0 \<le> now - LocationAttestation.timestamp att \<and>
      of_int (now - LocationAttestation.timestamp att) \<le> config_maxAge config * 1000)"
| "stage_passes P now att config TimeWindowStage =
     (windowStart config \<le> LocationAttestation.timestamp att \<and>
      LocationAttestation.timestamp att \<le> windowEnd config)"
| "stage_passes P now att config GeofenceStage =
     number_le (geofence_distance P att config) (radiusMeters config)"
| "stage_passes P now att config MovementStage =
     (case movementHistory att of
        None \<Rightarrow> True
      | Some h \<Rightarrow> length h < 2 \<or> plausible (movement_result P att config))"
| "stage_passes P now att config PresenceStage =
     (case movementHistory att of
        None \<Rightarrow> True
      | Some h \<Rightarrow> requireContinuousPresence config \<noteq> Some True \<or>
                  verified (presence_result P att config))"

text \<open>The result the pipeline gives when a stage is the one that fails.\<close>

fun stage_rejection ::
  "platform \<Rightarrow> LocationAttestation \<Rightarrow> VerificationConfig \<Rightarrow> stage \<Rightarrow> VerificationResult" where
  "stage_rejection P att config SignatureStage =
     \<lparr>valid = False, reason = Some InvalidSignature, attestation = None, distance = None\<rparr>"
| "stage_rejection P att config FreshnessStage =
     \<lparr>valid = False, reason = Some (AttestationTooOld (config_maxAge config)),
      attestation = Some att, distance = None\<rparr>"
| "stage_rejection P att config TimeWindowStage =
     \<lparr>valid = False, reason = Some OutsideTimeWindow, attestation = Some att,
      distance = None\<rparr>"
| "stage_rejection P att config GeofenceStage =
     \<lparr>valid = False,
      reason = Some (OutsideGeofence (geofence_distance P att config) (radiusMeters config)),
      attestation = Some att, distance = Some (geofence_distance P att config)\<rparr>"
| "stage_rejection P att config MovementStage =
     \<lparr>valid = False, reason = PlausibilityResult.reason (movement_result P att config),
      attestation = Some att, distance = Some (geofence_distance P att config)\<rparr>"
| "stage_rejection P att config PresenceStage =
     \<lparr>valid = False, reason = PresenceResult.reason (presence_result P att config),
      attestation = Some att, distance = Some (geofence_distance P att config)\<rparr>"

text \<open>The stage that reports a given reason.\<close>

fun stage_of_reason :: "reason \<Rightarrow> stage" where
  "stage_of_reason InvalidSignature = SignatureStage"
| "stage_of_reason (AttestationTooOld maxAge) = FreshnessStage"
| "stage_of_reason OutsideTimeWindow = TimeWindowStage"
| "stage_of_reason (OutsideGeofence d r) = GeofenceStage"
| "stage_of_reason (ImpossibleSpeed v m) = MovementStage"
| "stage_of_reason NoMovementHistory = PresenceStage"
| "stage_of_reason (InsufficientPresence d r) = PresenceStage"

definition first_failure ::
  "platform \<Rightarrow> int \<Rightarrow> LocationAttestation \<Rightarrow> VerificationConfig \<Rightarrow> stage option" where
  "first_failure P now att config = List.find (\<lambda>s. \<not> stage_passes P now att config s) stages"

definition pipeline_in_order ::
  "platform \<Rightarrow> int \<Rightarrow> LocationAttestation \<Rightarrow> VerificationConfig \<Rightarrow> VerificationResult" where
  "pipeline_in_order P now att config =
     (case first_failure P now att config of
        Some s \<Rightarrow> stage_rejection P att config s
      | None \<Rightarrow> \<lparr>valid = True, reason = None, attestation = Some att,
                  distance = Some (geofence_distance P att config)\<rparr>)"

subsection \<open>The Haversine formula\<close>

text \<open>\<^verbatim>\<open>Math.atan2(y, x)\<close> in exact arithmetic.\<close>

definition atan2 :: "real \<Rightarrow> real \<Rightarrow> real" where
  "atan2 y x =
     (if 0 < x then arctan (y / x)
      else if x < 0 \<and> 0 \<le> y then arctan (y / x) + pi
      else if x < 0 \<and> y < 0 then arctan (y / x) - pi
      else if 0 < y then pi / 2
      else if y < 0 then - (pi / 2)
      else 0)"

text \<open>A platform whose arithmetic does not round.\<close>

definition exact_arithmetic :: "platform \<Rightarrow> bool" where
  "exact_arithmetic P \<longleftrightarrow>
     double P = (\<lambda>x. x) \<and> Math_PI P = pi \<and> Math_sin P = sin \<and> Math_cos P = cos \<and>
     Math_sqrt P = sqrt \<and> Math_atan2 P = atan2"

text \<open>The term \<open>a\<close> in exact arithmetic.\<close>

definition exact_a :: "real \<Rightarrow> real \<Rightarrow> real \<Rightarrow> real \<Rightarrow> real" where
  "exact_a lat1 lon1 lat2 lon2 =
     (let phi1 = (lat1 * pi) / 180;
          phi2 = (lat2 * pi) / 180;
          dphi = ((lat2 - lat1) * pi) / 180;
          dlambda = ((lon2 - lon1) * pi) / 180
      in sin (dphi / 2) * sin (dphi / 2) +
         cos phi1 * cos phi2 * sin (dlambda / 2) * sin (dlambda / 2))"

definition radians :: "real \<Rightarrow> real" where
  "radians deg = deg * pi / 180"

text \<open>The haversine (half versed sine) of an angle.\<close>

definition hav :: "real \<Rightarrow> real" where
  "hav theta = (1 - cos theta) / 2"

definition haversine_formula :: "real \<Rightarrow> real \<Rightarrow> real \<Rightarrow> real \<Rightarrow> real" where
  "haversine_formula lat1 lon1 lat2 lon2 =
     2 * 6371000 *
       arcsin (sqrt (hav (radians (lat2 - lat1)) +
                     cos (radians lat1) * cos (radians lat2) * hav (radians (lon2 - lon1))))"

subsection \<open>Runs of samples inside the geofence\<close>

definition inside_fence :: "platform \<Rightarrow> real \<Rightarrow> real \<Rightarrow> real \<Rightarrow> LocationPoint \<Rightarrow> bool" where
  "inside_fence P tLat tLon r p \<longleftrightarrow>
     number_le (calculateDistance P (lat p) (lon p) tLat tLon) r"

text \<open>
  \<open>split_runs inside cur xs\<close> cuts \<open>xs\<close> at every sample outside the geofence; \<open>cur\<close> is
  the run which is open when \<open>xs\<close> starts. The last element of the result is the run that
  ends with the last sample, empty when that sample is outside.
\<close>

fun split_runs :: "('a \<Rightarrow> bool) \<Rightarrow> 'a list \<Rightarrow> 'a list \<Rightarrow> 'a list list" where
  "split_runs inside cur [] = [cur]"
| "split_runs inside cur (x # xs) =
     (if inside x then split_runs inside (cur @ [x]) xs
      else cur # split_runs inside [] xs)"

definition run_span :: "LocationPoint list \<Rightarrow> int" where
  "run_span run =
     (if run = [] then 0
      else LocationPoint.timestamp (last run) - LocationPoint.timestamp (hd run))"

definition longest_run_span ::
  "platform \<Rightarrow> real \<Rightarrow> real \<Rightarrow> real \<Rightarrow> LocationPoint list \<Rightarrow> int" where
  "longest_run_span P tLat tLon r samples =
     foldr max (map run_span (split_runs (inside_fence P tLat tLon r) [] samples)) 0"

definition trailing_run_span ::
  "platform \<Rightarrow> real \<Rightarrow> real \<Rightarrow> real \<Rightarrow> LocationPoint list \<Rightarrow> int" where
  "trailing_run_span P tLat tLon r samples =
     run_span (last (split_runs (inside_fence P tLat tLon r) [] samples))"

text \<open>
  The loop state of \<^verbatim>\<open>verifyContinuousPresence\<close> that corresponds to an open run, as long
  as no sample is stamped \<open>-1\<close>.
\<close>

definition window_of_run :: "LocationPoint list \<Rightarrow> int \<times> int" where
  "window_of_run run =
     (if run = [] then (- 1, 0) else (LocationPoint.timestamp (hd run), run_span run))"

text \<open>The pairs \<open>(sorted[i - 1], sorted[i])\<close>.\<close>

definition consecutive_pairs :: "'a list \<Rightarrow> ('a \<times> 'a) list" where
  "consecutive_pairs xs = zip xs (tl xs)"

subsection \<open>HKDF-Expand after RFC 5869\<close>

fun hkdf_T :: "platform \<Rightarrow> bytes \<Rightarrow> bytes \<Rightarrow> nat \<Rightarrow> bytes" where
  "hkdf_T P prk info 0 = []"
| "hkdf_T P prk info (Suc i) =
     hmac_sha256 P prk (hkdf_T P prk info i @ info @ [of_nat (Suc i)])"

definition hkdf_blocks :: "platform \<Rightarrow> bytes \<Rightarrow> bytes \<Rightarrow> nat \<Rightarrow> bytes" where
  "hkdf_blocks P prk info n = concat (map (hkdf_T P prk info) [1 ..< Suc n])"

section \<open>Concrete inputs\<close>

text \<open>
  Three base64 strings: 64 bytes of value 0, 32 bytes of value 0 and 64 bytes of value 1.
\<close>

definition zero_signature :: string where
  "zero_signature =
     ''AAAAAAAAAAAAAAAAAAAAAAAAAAAAAAAAAAAAAAAAAAAAAAAAAAAAAAAAAAAAAAAAAAAAAAAAAAAAAAAAAAAAAA==''"

definition zero_key :: string where
  "zero_key = ''AAAAAAAAAAAAAAAAAAAAAAAAAAAAAAAAAAAAAAAAAAA=''"

definition ones_signature :: string where
  "ones_signature =
     ''AQEBAQEBAQEBAQEBAQEBAQEBAQEBAQEBAQEBAQEBAQEBAQEBAQEBAQEBAQEBAQEBAQEBAQEBAQEBAQEBAQEBAQ==''"

text \<open>
  A platform on which the definitions can be evaluated. The decoder of signatures and keys
  knows the three strings above and raises on every other string, among them the strings
  that are not base64; a signature is accepted when its first 32 bytes are the public key.
  The arithmetic is exact. The HMAC is the first 32 bytes of key, message and padding, the
  cipher is the identity with an empty tag, and the text codecs of the crypto module map a
  byte to the character of the same code.
\<close>

definition demo_platform :: platform where
  "demo_platform =
     \<lparr>nacl_sign_detached_verify = (\<lambda>msg sg pk. take 32 sg = pk),
      nacl_util_decodeBase64 =
        (\<lambda>s. if s = zero_signature then Some (replicate 64 0)
             else if s = zero_key then Some (replicate 32 0)
             else if s = ones_signature then Some (replicate 64 1)
             else None),
      double = (\<lambda>x. x),
      Math_PI = pi,
      Math_sin = sin,
      Math_cos = cos,
      Math_sqrt = sqrt,
      Math_atan2 = atan2,
      hmac_sha256 = (\<lambda>k m. take 32 (k @ m @ replicate 32 0)),
      aes256gcm_encrypt = (\<lambda>k n p. (p, [])),
      aes256gcm_decrypt = (\<lambda>k n c t. Some c),
      utf8_encode = map (\<lambda>c. of_nat (of_char c)),
      utf8_decode = map (\<lambda>b. char_of (unat b)),
      base64_encode = map (\<lambda>b. char_of (unat b)),
      base64_decode = map (\<lambda>c. of_nat (of_char c)),
      toFixed6 = (\<lambda>x. []),
      json_number = (\<lambda>x. []),
      json_string = (\<lambda>s. s)\<rparr>"

text \<open>
  An attestation at the target, signed, stamped 1000 ms, with a given movement history,
  and a configuration with radius 100 m and window 0 to 2000 ms.
\<close>

definition demo_attestation :: "LocationPoint list option \<Rightarrow> LocationAttestation" where
  "demo_attestation h =
     \<lparr>deviceId = ''device'', devicePublicKey = zero_key, latitude = 0, longitude = 0,
      accuracy = 5, timestamp = 1000, altitude = None, heading = None, speed = None,
      wifiSSIDs = None, cellTowers = None, movementHistory = h,
      signature = zero_signature\<rparr>"

definition demo_config :: "bool option \<Rightarrow> VerificationConfig" where
  "demo_config presence =
     \<lparr>targetLat = 0, targetLon = 0, radiusMeters = 100, windowStart = 0, windowEnd = 2000,
      maxAttestationAgeSec = None, requireContinuousPresence = presence,
      continuousPresenceDurationSec = None, maxSpeedMps = None\<rparr>"

text \<open>Two samples with one timestamp, half the globe apart.\<close>

definition teleport_history :: "LocationPoint list" where
  "teleport_history =
     [\<lparr>lat = 0, lon = 0, timestamp = 1000\<rparr>, \<lparr>lat = 0, lon = 180, timestamp = 1000\<rparr>]"

text \<open>
  Sixty seconds at the target, then a sample at the antipode, late enough for the journey
  to stay below 200 m/s.
\<close>

definition excursion_history :: "LocationPoint list" where
  "excursion_history =
     [\<lparr>lat = 0, lon = 0, timestamp = 0\<rparr>, \<lparr>lat = 0, lon = 0, timestamp = 60000\<rparr>,
      \<lparr>lat = 0, lon = 180, timestamp = 200060000\<rparr>]"



definition demo_binding :: LocationBinding where
  "demo_binding =
     \<lparr>LocationBinding.latitude = 18.5204, longitude = 73.8567, radiusMeters = 100,
      windowStart = 1000, windowEnd = 2000, nonce = ''test-nonce''\<rparr>"

definition demo_random :: random_source where
  "demo_random = \<lparr>bytes_at = (\<lambda>i. of_nat i), cursor = 0\<rparr>"

section \<open>The pipeline runs its stages in order\<close>

text \<open>
  Where the signature check returns, the nested conditionals of
  \<^verbatim>\<open>verifyLocationAttestation\<close> compute the rejection of the first stage, in the order of
  \<^const>\<open>stages\<close>, that does not pass; where it raises, so does the pipeline.
\<close>

lemma verifyLocationAttestation_in_order:
  "verifyAttestationSignature P att = Inr b \<Longrightarrow>
   verifyLocationAttestation P now att config = Inr (pipeline_in_order P now att config)"
  unfolding verifyLocationAttestation_def pipeline_in_order_def first_failure_def stages_def
  by (auto simp: Let_def isAttestationFresh_def isWithinTimeWindow_def isWithinGeofence_def
      config_maxAge_def geofence_distance_def movement_result_def presence_result_def
      split: option.splits)


lemma verifyLocationAttestation_returns:
  "verifyLocationAttestation P now att config = Inr r \<Longrightarrow>
   \<exists>b. verifyAttestationSignature P att = Inr b"
  by (cases "verifyAttestationSignature P att") (simp_all add: verifyLocationAttestation_def)


lemma plausibility_loop_rejection:
  "\<not> plausible (plausibility_loop P m ms xs) \<Longrightarrow>
   \<exists>v. PlausibilityResult.reason (plausibility_loop P m ms xs) = Some (ImpossibleSpeed v m)"
  by (induction P m ms xs rule: plausibility_loop.induct) (auto simp: Let_def split: if_splits)

lemma checkMovementPlausibility_rejection:
  "\<not> plausible (checkMovementPlausibility P h m) \<Longrightarrow>
   \<exists>v c. PlausibilityResult.reason (checkMovementPlausibility P h m) = Some (ImpossibleSpeed v c)"
  unfolding checkMovementPlausibility_def Let_def
  by (auto split: if_splits dest: plausibility_loop_rejection)

lemma verifyContinuousPresence_rejection:
  assumes "\<not> verified (verifyContinuousPresence P h tLat tLon r d)"
  shows "PresenceResult.reason (verifyContinuousPresence P h tLat tLon r d) = Some NoMovementHistory \<or>
   (\<exists>v. PresenceResult.reason (verifyContinuousPresence P h tLat tLon r d) =
      Some (InsufficientPresence v d))"
proof (cases "h = []")
  case True
  then show ?thesis by (simp add: verifyContinuousPresence_def)
next
  case False
  obtain ws wd where l: "presence_loop P tLat tLon r (- 1, 0) (sort_by_timestamp h) = (ws, wd)"
    by (cases "presence_loop P tLat tLon r (- 1, 0) (sort_by_timestamp h)")
  from False l have "PresenceResult.reason (verifyContinuousPresence P h tLat tLon r d) =
      Some (InsufficientPresence (real_of_int wd / 1000) d)"
    using assms unfolding verifyContinuousPresence_def Let_def
    by (simp split: if_splits)
  then show ?thesis by blast
qed

lemma first_failure_cases:
  "first_failure P now att config =
     (if \<not> stage_passes P now att config SignatureStage then Some SignatureStage
      else if \<not> stage_passes P now att config FreshnessStage then Some FreshnessStage
      else if \<not> stage_passes P now att config TimeWindowStage then Some TimeWindowStage
      else if \<not> stage_passes P now att config GeofenceStage then Some GeofenceStage
      else if \<not> stage_passes P now att config MovementStage then Some MovementStage
      else if \<not> stage_passes P now att config PresenceStage then Some PresenceStage
      else None)"
  unfolding first_failure_def stages_def by simp

lemma movement_result_rejection:
  "\<not> plausible (movement_result P att config) \<Longrightarrow>
   \<exists>v c. PlausibilityResult.reason (movement_result P att config) = Some (ImpossibleSpeed v c)"
  unfolding movement_result_def by (rule checkMovementPlausibility_rejection)

lemma presence_result_rejection:
  "\<not> verified (presence_result P att config) \<Longrightarrow>
   PresenceResult.reason (presence_result P att config) = Some NoMovementHistory \<or>
   (\<exists>v d. PresenceResult.reason (presence_result P att config) = Some (InsufficientPresence v d))"
  unfolding presence_result_def using verifyContinuousPresence_rejection by blast

lemma first_failure_fails:
  "first_failure P now att config = Some s \<Longrightarrow> \<not> stage_passes P now att config s"
  unfolding first_failure_def by (auto simp: find_Some_iff)

lemma stale_reason_only_from_freshness:
  assumes "first_failure P now att config = Some s"
    and "VerificationResult.reason (stage_rejection P att config s) = Some (AttestationTooOld a)"
  shows "s = FreshnessStage"
proof (cases s)
  case MovementStage
  with first_failure_fails[OF assms(1)] have "\<not> plausible (movement_result P att config)"
    by (auto split: option.splits)
  from movement_result_rejection[OF this] assms(2) MovementStage show ?thesis by auto
next
  case PresenceStage
  with first_failure_fails[OF assms(1)] have "\<not> verified (presence_result P att config)"
    by (auto split: option.splits)
  from presence_result_rejection[OF this] assms(2) PresenceStage show ?thesis by auto
qed (use assms(2) in auto)

lemma rejection_reason_stage:
  assumes "first_failure P now att config = Some s"
  shows "\<exists>rr. VerificationResult.reason (stage_rejection P att config s) = Some rr \<and>
              stage_of_reason rr = s"
proof (cases s)
  case MovementStage
  with first_failure_fails[OF assms] have "\<not> plausible (movement_result P att config)"
    by (auto split: option.splits)
  from movement_result_rejection[OF this] MovementStage show ?thesis by auto
next
  case PresenceStage
  with first_failure_fails[OF assms] have "\<not> verified (presence_result P att config)"
    by (auto split: option.splits)
  from presence_result_rejection[OF this] PresenceStage show ?thesis by auto
qed auto

section \<open>The distance in exact and in rounded arithmetic\<close>

text \<open>
  The source computes \<open>2 atan2(\<surd>a, \<surd>(1 - a))\<close>. In exact arithmetic \<open>a\<close> lies between 0
  and 1 and this is \<open>2 arcsin \<surd>a\<close>, the Haversine distance. Where the doubles round
  \<open>1 - a\<close> below 0, the result is \<^verbatim>\<open>NaN\<close> and the geofence check rejects at every
  radius.
\<close>

lemma sin_half_squared: "sin (x / 2) * sin (x / 2) = hav x"
proof -
  have "cos x = cos (2 * (x / 2))" by simp
  also have "\<dots> = 1 - 2 * (sin (x / 2))\<^sup>2" by (rule cos_double_sin)
  finally show ?thesis by (simp add: hav_def power2_eq_square)
qed

lemma exact_a_hav:
  "exact_a lat1 lon1 lat2 lon2 =
     hav (radians (lat2 - lat1)) +
     cos (radians lat1) * cos (radians lat2) * hav (radians (lon2 - lon1))"
proof -
  have "cos (radians lat1) * cos (radians lat2) * sin (radians (lon2 - lon1) / 2) *
          sin (radians (lon2 - lon1) / 2) =
        cos (radians lat1) * cos (radians lat2) *
          (sin (radians (lon2 - lon1) / 2) * sin (radians (lon2 - lon1) / 2))"
    by (simp add: mult.assoc)
  then show ?thesis
    unfolding exact_a_def Let_def radians_def[symmetric]
    by (simp only: sin_half_squared)
qed

lemma twice_abs_prod_le: "2 * \<bar>x * y\<bar> \<le> x * x + y * y" for x y :: real
proof -
  have "0 \<le> (\<bar>x\<bar> - \<bar>y\<bar>) * (\<bar>x\<bar> - \<bar>y\<bar>)" by simp
  also have "\<dots> = x * x + y * y - 2 * \<bar>x * y\<bar>"
    by (simp add: algebra_simps abs_mult)
  finally show ?thesis by simp
qed

lemma central_cos_bounded:
  "\<bar>sin p * sin q + cos p * cos q * cos l\<bar> \<le> 1" for p q l :: real
proof -
  have "\<bar>cos p * cos q * cos l\<bar> = \<bar>cos p * cos q\<bar> * \<bar>cos l\<bar>" by (simp add: abs_mult)
  also have "\<dots> \<le> \<bar>cos p * cos q\<bar> * 1"
    by (rule mult_left_mono) (simp_all add: abs_cos_le_one)
  finally have c: "\<bar>cos p * cos q * cos l\<bar> \<le> \<bar>cos p * cos q\<bar>" by simp
  have sp: "sin p * sin p + cos p * cos p = 1" and sq: "sin q * sin q + cos q * cos q = 1"
    using sin_cos_squared_add[of p] sin_cos_squared_add[of q]
    by (simp_all add: power2_eq_square)
  from twice_abs_prod_le[of "sin p" "sin q"] twice_abs_prod_le[of "cos p" "cos q"] c sp sq
  show ?thesis by linarith
qed

lemma exact_a_central:
  "exact_a lat1 lon1 lat2 lon2 =
     (1 - (sin (radians lat1) * sin (radians lat2) +
           cos (radians lat1) * cos (radians lat2) * cos (radians (lon2 - lon1)))) / 2"
proof -
  have "radians (lat2 - lat1) = radians lat2 - radians lat1"
    by (simp add: radians_def field_simps)
  then have "cos (radians (lat2 - lat1)) =
      cos (radians lat2) * cos (radians lat1) + sin (radians lat2) * sin (radians lat1)"
    by (simp add: cos_diff)
  then show ?thesis
    unfolding exact_a_hav hav_def by (simp add: field_simps)
qed

lemma exact_a_range: "0 \<le> exact_a lat1 lon1 lat2 lon2 \<and> exact_a lat1 lon1 lat2 lon2 \<le> 1"
  using central_cos_bounded[of "radians lat1" "radians lat2" "radians (lon2 - lon1)"]
  unfolding exact_a_central by (simp add: abs_le_iff)

lemma atan2_sqrt_arcsin:
  assumes "0 \<le> a" "a \<le> 1"
  shows "atan2 (sqrt a) (sqrt (1 - a)) = arcsin (sqrt a)"
proof (cases "a = 1")
  case True
  then show ?thesis by (simp add: atan2_def)
next
  case False
  with assms have lt: "a < 1" by simp
  then have pos: "0 < sqrt (1 - a)" by simp
  have "sqrt a < 1" using lt assms by (simp add: real_sqrt_lt_1_iff)
  moreover have "- 1 < sqrt a" using assms by (smt (verit) real_sqrt_ge_zero)
  ultimately have "arcsin (sqrt a) = arctan (sqrt a / sqrt (1 - (sqrt a)\<^sup>2))"
    by (simp add: arcsin_arctan)
  also have "(sqrt a)\<^sup>2 = a" using assms by simp
  finally show ?thesis using pos by (simp add: atan2_def)
qed

lemma haversine_a_exact:
  "exact_arithmetic P \<Longrightarrow> haversine_a P lat1 lon1 lat2 lon2 = exact_a lat1 lon1 lat2 lon2"
  by (simp add: exact_arithmetic_def haversine_a_def exact_a_def Let_def)

lemma calculateDistance_exact:
  assumes "exact_arithmetic P"
  shows "calculateDistance P lat1 lon1 lat2 lon2 = Num (haversine_formula lat1 lon1 lat2 lon2)"
proof -
  have r: "0 \<le> exact_a lat1 lon1 lat2 lon2" "exact_a lat1 lon1 lat2 lon2 \<le> 1"
    using exact_a_range[of lat1 lon1 lat2 lon2] by simp_all
  have p: "double P = (\<lambda>x. x)" "Math_sqrt P = sqrt" "Math_atan2 P = atan2"
    using assms by (simp_all add: exact_arithmetic_def)
  from r have "calculateDistance P lat1 lon1 lat2 lon2 =
      Num (6371000 * (2 * arcsin (sqrt (exact_a lat1 lon1 lat2 lon2))))"
    unfolding calculateDistance_def Let_def haversine_a_exact[OF assms]
    by (simp add: js_sqrt_def p atan2_sqrt_arcsin)
  then show ?thesis
    by (simp add: haversine_formula_def exact_a_hav)
qed

lemma calculateDistance_NaN:
  "double P (1 - haversine_a P lat1 lon1 lat2 lon2) < 0 \<Longrightarrow>
   calculateDistance P lat1 lon1 lat2 lon2 = NaN"
  by (cases "js_sqrt P (haversine_a P lat1 lon1 lat2 lon2)")
     (simp_all add: calculateDistance_def Let_def js_sqrt_def)

lemma isWithinGeofence_NaN:
  "calculateDistance P currentLat currentLon tLat tLon = NaN \<Longrightarrow>
   isWithinGeofence P currentLat currentLon tLat tLon r =
     \<lparr>within_fence = False, distance = NaN\<rparr>"
  by (simp add: isWithinGeofence_def)

lemma isWithinGeofence_exact:
  "exact_arithmetic P \<Longrightarrow>
   isWithinGeofence P currentLat currentLon tLat tLon r =
     \<lparr>within_fence = (haversine_formula currentLat currentLon tLat tLon \<le> r),
      distance = Num (haversine_formula currentLat currentLon tLat tLon)\<rparr>"
  by (simp add: isWithinGeofence_def calculateDistance_exact)

section \<open>Facts about the concrete inputs\<close>

lemma demo_exact_arithmetic: "exact_arithmetic demo_platform"
  by (simp add: exact_arithmetic_def demo_platform_def)

lemma haversine_same_point: "haversine_formula la lo la lo = 0"
  by (simp add: haversine_formula_def hav_def radians_def)

lemma haversine_antipodal:
  "haversine_formula 0 0 0 180 = 6371000 * pi" "haversine_formula 0 180 0 0 = 6371000 * pi"
  by (simp_all add: haversine_formula_def hav_def radians_def)

lemma calculateDistance_same_point: "calculateDistance demo_platform la lo la lo = Num 0"
  by (simp add: calculateDistance_exact[OF demo_exact_arithmetic] haversine_same_point)

lemma calculateDistance_antipodal:
  "calculateDistance demo_platform 0 0 0 180 = Num (6371000 * pi)"
  "calculateDistance demo_platform 0 180 0 0 = Num (6371000 * pi)"
  by (simp_all add: calculateDistance_exact[OF demo_exact_arithmetic] haversine_antipodal)

lemma antipode_is_far:
  "\<not> number_le (calculateDistance demo_platform 0 180 0 0) 100"
  "\<not> number_le (calculateDistance demo_platform 0 0 0 180) 100"
proof -
  have "(100::real) < 6371000 * 2" by simp
  also have "\<dots> \<le> 6371000 * pi" using pi_ge_two by simp
  finally show "\<not> number_le (calculateDistance demo_platform 0 180 0 0) 100"
    "\<not> number_le (calculateDistance demo_platform 0 0 0 180) 100"
    by (simp_all add: calculateDistance_antipodal)
qed

lemma demo_decoded:
  "nacl_util_decodeBase64 demo_platform zero_signature = Some (replicate 64 0)"
  "nacl_util_decodeBase64 demo_platform zero_key = Some (replicate 32 0)"
  "nacl_util_decodeBase64 demo_platform ones_signature = Some (replicate 64 1)"
  "nacl_util_decodeBase64 demo_platform ''forged'' = None"
  by (simp_all add: demo_platform_def zero_signature_def zero_key_def ones_signature_def)

lemma demo_verify:
  "nacl_sign_detached_verify demo_platform m (replicate 64 0) (replicate 32 0)"
  "\<not> nacl_sign_detached_verify demo_platform m (replicate 64 1) (replicate 32 0)"
  by (simp_all add: demo_platform_def)

lemma demo_signature_valid:
  "verifyAttestationSignature demo_platform (demo_attestation h) = Inr True"
  by (simp add: verifyAttestationSignature_def verifySignature_def demo_attestation_def
      demo_decoded demo_verify)

lemma demo_first_stages:
  "stage_passes demo_platform 1000 (demo_attestation h) (demo_config c) SignatureStage"
  "stage_passes demo_platform 1000 (demo_attestation h) (demo_config c) FreshnessStage"
  "stage_passes demo_platform 1000 (demo_attestation h) (demo_config c) TimeWindowStage"
  "stage_passes demo_platform 1000 (demo_attestation h) (demo_config c) GeofenceStage"
  using demo_signature_valid[of h]
  by (simp_all add: config_maxAge_def geofence_distance_def demo_attestation_def demo_config_def
      calculateDistance_same_point)

lemma demo_hmac_length: "\<forall>k m. length (hmac_sha256 demo_platform k m) = 32"
  by (auto simp: demo_platform_def)

section \<open>Freshness\<close>

text \<open>
  Claim C5. The freshness check accepts exactly when \<open>0 \<le> now - timestamp \<le> maxAgeMs\<close>,
  where the maximal age is 300 000 ms when none is configured. Within the pipeline, a
  correctly signed attestation is rejected as too old exactly when that condition fails;
  in particular every attestation stamped later than the current time is rejected with
  that reason.
\<close>

theorem freshness_check:
  "(isAttestationFresh now ts None \<longleftrightarrow> 0 \<le> now - ts \<and> real_of_int (now - ts) \<le> 300000) \<and>
   (isAttestationFresh now ts (Some m) \<longleftrightarrow> 0 \<le> now - ts \<and> real_of_int (now - ts) \<le> m * 1000) \<and>
   (verifyAttestationSignature P att = Inr True \<longrightarrow>
      ((\<exists>a r. verifyLocationAttestation P now att config = Inr r \<and>
              VerificationResult.reason r = Some (AttestationTooOld a)) \<longleftrightarrow>
       \<not> (0 \<le> now - LocationAttestation.timestamp att \<and>
          real_of_int (now - LocationAttestation.timestamp att) \<le>
            (case maxAttestationAgeSec config of None \<Rightarrow> 300000 | Some m \<Rightarrow> m * 1000)))) \<and>
   (verifyAttestationSignature P att = Inr True \<and> now < LocationAttestation.timestamp att \<longrightarrow>
      verifyLocationAttestation P now att config =
        Inr \<lparr>valid = False,
             reason = Some (AttestationTooOld
               (case maxAttestationAgeSec config of None \<Rightarrow> 300 | Some m \<Rightarrow> m)),
             attestation = Some att, distance = None\<rparr>)"
proof -
  let ?age = "now - LocationAttestation.timestamp att"
  let ?ok = "0 \<le> ?age \<and> real_of_int ?age \<le>
      (case maxAttestationAgeSec config of None \<Rightarrow> 300000 | Some m \<Rightarrow> m * 1000)"
  have ok: "?ok \<longleftrightarrow> stage_passes P now att config FreshnessStage"
    by (simp add: config_maxAge_def split: option.splits)
  have a: "isAttestationFresh now ts None \<longleftrightarrow> 0 \<le> now - ts \<and> real_of_int (now - ts) \<le> 300000"
    by (simp add: isAttestationFresh_def)
  have b: "isAttestationFresh now ts (Some m) \<longleftrightarrow> 0 \<le> now - ts \<and> real_of_int (now - ts) \<le> m * 1000"
    by (simp add: isAttestationFresh_def)
  have c: "(\<exists>a r. verifyLocationAttestation P now att config = Inr r \<and>
              VerificationResult.reason r = Some (AttestationTooOld a)) \<longleftrightarrow> \<not> ?ok"
    if sig: "verifyAttestationSignature P att = Inr True"
  proof
    assume "\<exists>a r. verifyLocationAttestation P now att config = Inr r \<and>
              VerificationResult.reason r = Some (AttestationTooOld a)"
    then obtain a where a: "VerificationResult.reason (pipeline_in_order P now att config) =
             Some (AttestationTooOld a)"
      by (auto simp: verifyLocationAttestation_in_order[OF sig])
    then obtain s where s: "first_failure P now att config = Some s"
      by (cases "first_failure P now att config") (auto simp: pipeline_in_order_def)
    with a have "s = FreshnessStage"
      using stale_reason_only_from_freshness[OF s] by (simp add: pipeline_in_order_def)
    with s have "\<not> stage_passes P now att config FreshnessStage"
      by (auto simp: first_failure_cases split: if_splits)
    then show "\<not> ?ok" using ok by blast
  next
    assume "\<not> ?ok"
    then have "first_failure P now att config = Some FreshnessStage"
      using sig by (auto simp: first_failure_cases config_maxAge_def split: option.splits)
    then show "\<exists>a r. verifyLocationAttestation P now att config = Inr r \<and>
              VerificationResult.reason r = Some (AttestationTooOld a)"
      by (simp add: verifyLocationAttestation_in_order[OF sig] pipeline_in_order_def)
  qed
  have d: "verifyLocationAttestation P now att config =
        Inr \<lparr>valid = False,
             reason = Some (AttestationTooOld
               (case maxAttestationAgeSec config of None \<Rightarrow> 300 | Some m \<Rightarrow> m)),
             attestation = Some att, distance = None\<rparr>"
    if h: "verifyAttestationSignature P att = Inr True \<and> now < LocationAttestation.timestamp att"
  proof -
    from h have sig: "verifyAttestationSignature P att = Inr True" by simp
    from h have "first_failure P now att config = Some FreshnessStage"
      by (simp add: first_failure_cases)
    then show ?thesis
      by (simp add: verifyLocationAttestation_in_order[OF sig] pipeline_in_order_def
          config_maxAge_def)
  qed
  from a b c d show ?thesis by blast
qed

theorem freshness_check_witness:
  "verifyAttestationSignature demo_platform (demo_attestation None) = Inr True \<and>
   (500::int) < LocationAttestation.timestamp (demo_attestation None) \<and>
   verifyLocationAttestation demo_platform 500 (demo_attestation None) (demo_config None) =
     Inr \<lparr>valid = False, reason = Some (AttestationTooOld 300),
          attestation = Some (demo_attestation None), distance = None\<rparr>"
proof -
  have sig: "verifyAttestationSignature demo_platform (demo_attestation None) = Inr True"
    by (rule demo_signature_valid)
  have fut: "(500::int) < LocationAttestation.timestamp (demo_attestation None)"
    by (simp add: demo_attestation_def)
  have cfg: "maxAttestationAgeSec (demo_config None) = None"
    by (simp add: demo_config_def)
  from freshness_check[of 500 1000 300 demo_platform "demo_attestation None" "demo_config None"]
    sig fut cfg
  show ?thesis by simp
qed

section \<open>Order of the checks\<close>






section \<open>Reporting the distance\<close>

text \<open>
  Claim C6. Every rejection is the rejection of the first failing stage and names a
  reason of that stage. A rejection by the signature, freshness or time-window stage
  carries no distance; a rejection by the geofence stage or a later one carries the
  distance computed by the geofence stage.
\<close>

theorem distance_reporting:
  "verifyLocationAttestation P now att config = Inr r \<and> \<not> valid r \<longrightarrow>
   (\<exists>s rr. first_failure P now att config = Some s \<and>
        r = stage_rejection P att config s \<and>
        VerificationResult.reason r = Some rr \<and>
        stage_of_reason rr = s \<and>
        (s \<in> {SignatureStage, FreshnessStage, TimeWindowStage} \<longrightarrow>
           VerificationResult.distance r = None) \<and>
        (s \<in> {GeofenceStage, MovementStage, PresenceStage} \<longrightarrow>
           VerificationResult.distance r =
             Some (calculateDistance P (latitude att) (longitude att)
                     (targetLat config) (targetLon config))))"
proof
  assume h: "verifyLocationAttestation P now att config = Inr r \<and> \<not> valid r"
  then obtain b where "verifyAttestationSignature P att = Inr b"
    using verifyLocationAttestation_returns by blast
  from verifyLocationAttestation_in_order[OF this, of now config] h
  have p: "r = pipeline_in_order P now att config" by simp
  with h obtain s where s: "first_failure P now att config = Some s"
    by (cases "first_failure P now att config") (auto simp: pipeline_in_order_def)
  with p have r: "r = stage_rejection P att config s"
    by (simp add: pipeline_in_order_def)
  from rejection_reason_stage[OF s] obtain rr where
    rr: "VerificationResult.reason (stage_rejection P att config s) = Some rr"
      "stage_of_reason rr = s" by blast
  have d: "(s \<in> {SignatureStage, FreshnessStage, TimeWindowStage} \<longrightarrow>
           VerificationResult.distance (stage_rejection P att config s) = None) \<and>
        (s \<in> {GeofenceStage, MovementStage, PresenceStage} \<longrightarrow>
           VerificationResult.distance (stage_rejection P att config s) =
             Some (calculateDistance P (latitude att) (longitude att)
                     (targetLat config) (targetLon config)))"
    by (cases s) (auto simp: geofence_distance_def)
  from s r rr d show "\<exists>s rr. first_failure P now att config = Some s \<and>
        r = stage_rejection P att config s \<and>
        VerificationResult.reason r = Some rr \<and>
        stage_of_reason rr = s \<and>
        (s \<in> {SignatureStage, FreshnessStage, TimeWindowStage} \<longrightarrow>
           VerificationResult.distance r = None) \<and>
        (s \<in> {GeofenceStage, MovementStage, PresenceStage} \<longrightarrow>
           VerificationResult.distance r =
             Some (calculateDistance P (latitude att) (longitude att)
                     (targetLat config) (targetLon config)))"
    by (simp only:) blast
qed

theorem distance_reporting_witness:
  "verifyLocationAttestation demo_platform 1000 (demo_attestation (Some []))
       (demo_config (Some True)) =
     Inr (stage_rejection demo_platform (demo_attestation (Some [])) (demo_config (Some True))
            PresenceStage) \<and>
   \<not> valid (stage_rejection demo_platform (demo_attestation (Some []))
       (demo_config (Some True)) PresenceStage) \<and>
   first_failure demo_platform 1000 (demo_attestation (Some [])) (demo_config (Some True)) =
     Some PresenceStage \<and>
   VerificationResult.distance (stage_rejection demo_platform (demo_attestation (Some []))
       (demo_config (Some True)) PresenceStage) = Some (Num 0)"
proof -
  let ?att = "demo_attestation (Some [])" and ?cfg = "demo_config (Some True)"
  have mv: "stage_passes demo_platform 1000 ?att ?cfg MovementStage"
    by (simp add: demo_attestation_def)
  have pr: "\<not> stage_passes demo_platform 1000 ?att ?cfg PresenceStage"
    by (simp add: demo_attestation_def demo_config_def presence_result_def
        verifyContinuousPresence_def)
  have ff: "first_failure demo_platform 1000 ?att ?cfg = Some PresenceStage"
    using demo_first_stages[of "Some []" "Some True"] mv pr
    by (simp add: first_failure_cases)
  then have res: "verifyLocationAttestation demo_platform 1000 ?att ?cfg =
      Inr (stage_rejection demo_platform ?att ?cfg PresenceStage)"
    by (simp add: verifyLocationAttestation_in_order[OF demo_signature_valid]
        pipeline_in_order_def)
  have inv: "\<not> valid (stage_rejection demo_platform ?att ?cfg PresenceStage)" by simp
  have d: "calculateDistance demo_platform (latitude ?att) (longitude ?att) (targetLat ?cfg)
      (targetLon ?cfg) = Num 0"
    by (simp add: demo_attestation_def demo_config_def calculateDistance_same_point)
  from distance_reporting[of demo_platform 1000 ?att ?cfg
      "stage_rejection demo_platform ?att ?cfg PresenceStage"] res inv ff d
  show ?thesis by auto
qed

section \<open>Movement plausibility\<close>

lemma calculateSpeed_nonpositive_interval:
  "LocationPoint.timestamp q \<le> LocationPoint.timestamp p \<Longrightarrow> calculateSpeed P p q = Num 0"
  by (simp add: calculateSpeed_def Let_def)

lemma calculateSpeed_positive_interval:
  "LocationPoint.timestamp p < LocationPoint.timestamp q \<Longrightarrow>
   calculateSpeed P p q =
     number_div (calculateDistance P (lat p) (lon p) (lat q) (lon q))
       (real_of_int (LocationPoint.timestamp q - LocationPoint.timestamp p) / 1000)"
  by (simp add: calculateSpeed_def Let_def)

lemma plausibility_loop_plausible:
  "plausible (plausibility_loop P m ms xs) \<longleftrightarrow>
   (\<forall>(p, q) \<in> set (consecutive_pairs xs). \<not> number_gt (calculateSpeed P p q) m)"
  by (induction P m ms xs rule: plausibility_loop.induct)
     (auto simp: Let_def consecutive_pairs_def)

lemma checkMovementPlausibility_plausible:
  "plausible (checkMovementPlausibility P h (Some m)) \<longleftrightarrow>
   (\<forall>(p, q) \<in> set (consecutive_pairs (sort_by_timestamp h)).
      \<not> number_gt (calculateSpeed P p q) m)"
proof (cases "length h < 2")
  case True
  then have "length (sort_by_timestamp h) < 2" by (simp add: sort_by_timestamp_def)
  then have "consecutive_pairs (sort_by_timestamp h) = []"
    by (cases "sort_by_timestamp h") (auto simp: consecutive_pairs_def)
  with True show ?thesis by (simp add: checkMovementPlausibility_def)
next
  case False
  then show ?thesis by (simp add: checkMovementPlausibility_def plausibility_loop_plausible)
qed

text \<open>
  Claim C1, as amended. A pair of consecutive samples (after sorting by timestamp) whose
  timestamp difference is zero or negative is given speed 0, without a division, and so,
  under a non-negative speed ceiling, is never the pair that the check rejects. Where the
  distance of every consecutive pair is computed as a number, the check reports the
  history implausible exactly when some consecutive pair with a positive timestamp
  difference has distance over time above the ceiling. The ceiling is 200 m/s when none
  is given.
\<close>

theorem zero_interval_is_plausible:
  "0 \<le> m \<longrightarrow>
   (\<forall>(p, q) \<in> set (consecutive_pairs (sort_by_timestamp h)).
       LocationPoint.timestamp q - LocationPoint.timestamp p \<le> 0 \<longrightarrow>
       calculateSpeed P p q = Num 0 \<and> \<not> number_gt (calculateSpeed P p q) m) \<and>
   ((\<forall>(p, q) \<in> set (consecutive_pairs (sort_by_timestamp h)).
       calculateDistance P (lat p) (lon p) (lat q) (lon q) \<noteq> NaN) \<longrightarrow>
    (plausible (checkMovementPlausibility P h (Some m)) \<longleftrightarrow>
     (\<forall>(p, q) \<in> set (consecutive_pairs (sort_by_timestamp h)).
        LocationPoint.timestamp p < LocationPoint.timestamp q \<longrightarrow>
        (\<exists>d. calculateDistance P (lat p) (lon p) (lat q) (lon q) = Num d \<and>
             d / (real_of_int (LocationPoint.timestamp q - LocationPoint.timestamp p) / 1000)
               \<le> m)))) \<and>
   checkMovementPlausibility P h None = checkMovementPlausibility P h (Some 200)"
proof
  assume m: "0 \<le> m"
  let ?pairs = "set (consecutive_pairs (sort_by_timestamp h))"
  have dflt: "checkMovementPlausibility P h None = checkMovementPlausibility P h (Some 200)"
    by (simp add: checkMovementPlausibility_def)
  have zero: "calculateSpeed P p q = Num 0 \<and> \<not> number_gt (calculateSpeed P p q) m"
    if "LocationPoint.timestamp q - LocationPoint.timestamp p \<le> 0" for p q
    using that m by (simp add: calculateSpeed_nonpositive_interval)
  have speed: "\<not> number_gt (calculateSpeed P p q) m \<longleftrightarrow>
      (LocationPoint.timestamp p < LocationPoint.timestamp q \<longrightarrow>
       (\<exists>d. calculateDistance P (lat p) (lon p) (lat q) (lon q) = Num d \<and>
            d / (real_of_int (LocationPoint.timestamp q - LocationPoint.timestamp p) / 1000)
              \<le> m))"
    if "calculateDistance P (lat p) (lon p) (lat q) (lon q) \<noteq> NaN" for p q
  proof (cases "LocationPoint.timestamp p < LocationPoint.timestamp q")
    case True
    from that obtain d where d: "calculateDistance P (lat p) (lon p) (lat q) (lon q) = Num d"
      by (cases "calculateDistance P (lat p) (lon p) (lat q) (lon q)") simp_all
    with True show ?thesis
      by (simp add: calculateSpeed_positive_interval not_less)
  next
    case False
    then have "calculateSpeed P p q = Num 0" by (simp add: calculateSpeed_nonpositive_interval)
    with False m show ?thesis by simp
  qed
  have iff: "plausible (checkMovementPlausibility P h (Some m)) \<longleftrightarrow>
     (\<forall>(p, q) \<in> ?pairs.
        LocationPoint.timestamp p < LocationPoint.timestamp q \<longrightarrow>
        (\<exists>d. calculateDistance P (lat p) (lon p) (lat q) (lon q) = Num d \<and>
             d / (real_of_int (LocationPoint.timestamp q - LocationPoint.timestamp p) / 1000)
               \<le> m))"
    if "\<forall>(p, q) \<in> ?pairs. calculateDistance P (lat p) (lon p) (lat q) (lon q) \<noteq> NaN"
    unfolding checkMovementPlausibility_plausible using that speed by fast
  show "(\<forall>(p, q) \<in> ?pairs.
       LocationPoint.timestamp q - LocationPoint.timestamp p \<le> 0 \<longrightarrow>
       calculateSpeed P p q = Num 0 \<and> \<not> number_gt (calculateSpeed P p q) m) \<and>
   ((\<forall>(p, q) \<in> ?pairs.
       calculateDistance P (lat p) (lon p) (lat q) (lon q) \<noteq> NaN) \<longrightarrow>
    (plausible (checkMovementPlausibility P h (Some m)) \<longleftrightarrow>
     (\<forall>(p, q) \<in> ?pairs.
        LocationPoint.timestamp p < LocationPoint.timestamp q \<longrightarrow>
        (\<exists>d. calculateDistance P (lat p) (lon p) (lat q) (lon q) = Num d \<and>
             d / (real_of_int (LocationPoint.timestamp q - LocationPoint.timestamp p) / 1000)
               \<le> m)))) \<and>
   checkMovementPlausibility P h None = checkMovementPlausibility P h (Some 200)"
    using zero iff dflt by blast
qed

lemma sort_teleport_history: "sort_by_timestamp teleport_history = teleport_history"
  by (simp add: sort_by_timestamp_def teleport_history_def)

theorem zero_interval_is_plausible_witness:
  "(0::real) \<le> 200 \<and>
   calculateSpeed demo_platform \<lparr>lat = 0, lon = 0, timestamp = 1000\<rparr>
     \<lparr>lat = 0, lon = 180, timestamp = 1000\<rparr> = Num 0 \<and>
   plausible (checkMovementPlausibility demo_platform teleport_history (Some 200))"
proof -
  have pairs: "consecutive_pairs (sort_by_timestamp teleport_history) =
      [(\<lparr>lat = 0, lon = 0, timestamp = 1000\<rparr>, \<lparr>lat = 0, lon = 180, timestamp = 1000\<rparr>)]"
    by (simp add: sort_teleport_history) (simp add: teleport_history_def consecutive_pairs_def)
  from zero_interval_is_plausible[where m = 200 and P = demo_platform and h = teleport_history]
  show ?thesis by (simp add: pairs calculateDistance_antipodal)
qed

text \<open>
  Claim C1, as stated, fails: the history \<^const>\<open>teleport_history\<close> holds two distinct
  consecutive samples with timestamp difference zero, yet the movement check finds it
  plausible and the pipeline accepts the attestation.
\<close>

theorem zero_interval_counterexample:
  "sort_by_timestamp teleport_history = teleport_history \<and>
   teleport_history ! 0 \<noteq> teleport_history ! 1 \<and>
   LocationPoint.timestamp (teleport_history ! 1) - LocationPoint.timestamp (teleport_history ! 0) \<le> 0 \<and>
   checkMovementPlausibility demo_platform teleport_history None =
     \<lparr>plausible = True, reason = None, maxSpeed = Some (Num 0)\<rparr> \<and>
   verifyLocationAttestation demo_platform 1000 (demo_attestation (Some teleport_history))
     (demo_config None) =
     Inr \<lparr>valid = True, reason = None,
          attestation = Some (demo_attestation (Some teleport_history)),
          distance = Some (Num 0)\<rparr>"
proof -
  have a: "teleport_history ! 0 \<noteq> teleport_history ! 1"
    by (simp add: teleport_history_def)
  have b: "LocationPoint.timestamp (teleport_history ! 1) -
      LocationPoint.timestamp (teleport_history ! 0) \<le> 0"
    by (simp add: teleport_history_def)
  have len: "length teleport_history = 2" by (simp add: teleport_history_def)
  have sp: "calculateSpeed demo_platform \<lparr>lat = 0, lon = 0, timestamp = 1000\<rparr>
      \<lparr>lat = 0, lon = 180, timestamp = 1000\<rparr> = Num 0"
    by (simp add: calculateSpeed_nonpositive_interval)
  have c: "checkMovementPlausibility demo_platform teleport_history m =
     \<lparr>plausible = True, reason = None, maxSpeed = Some (Num 0)\<rparr>"
    if "m = None \<or> m = Some 200" for m
    using that len unfolding checkMovementPlausibility_def sort_teleport_history
    by (auto simp: teleport_history_def sp)
  have d: "verifyLocationAttestation demo_platform 1000 (demo_attestation (Some teleport_history))
     (demo_config None) =
     Inr \<lparr>valid = True, reason = None,
          attestation = Some (demo_attestation (Some teleport_history)),
          distance = Some (Num 0)\<rparr>"
    using len c[of "Some 200"]
    unfolding verifyLocationAttestation_def demo_signature_valid
    by (simp add: Let_def isAttestationFresh_def isWithinTimeWindow_def isWithinGeofence_def
        demo_attestation_def demo_config_def calculateDistance_same_point)
  from a b c[of None] d sort_teleport_history show ?thesis by simp
qed

section \<open>Continuous presence\<close>

lemma split_runs_nonempty: "split_runs inside cur xs \<noteq> []"
  by (induction xs arbitrary: cur) auto

lemma within_fence_inside:
  "within_fence (isWithinGeofence P (lat p) (lon p) tLat tLon r) = inside_fence P tLat tLon r p"
  by (simp add: isWithinGeofence_def inside_fence_def Let_def)

lemma presence_loop_trailing_run:
  assumes "\<forall>p \<in> set cur \<union> set xs. LocationPoint.timestamp p \<noteq> - 1"
  shows "presence_loop P tLat tLon r (window_of_run cur) xs =
         window_of_run (last (split_runs (inside_fence P tLat tLon r) cur xs))"
  using assms
proof (induction xs arbitrary: cur)
  case Nil
  then show ?case by (cases "window_of_run cur") simp
next
  case (Cons x xs)
  show ?case
  proof (cases "inside_fence P tLat tLon r x")
    case True
    have step: "presence_loop P tLat tLon r (window_of_run cur) (x # xs) =
        presence_loop P tLat tLon r (window_of_run (cur @ [x])) xs"
    proof (cases "cur = []")
      case True
      with \<open>inside_fence P tLat tLon r x\<close> show ?thesis
        by (simp add: window_of_run_def run_span_def within_fence_inside)
    next
      case False
      then have "hd cur \<in> set cur" by simp
      with Cons.prems have "LocationPoint.timestamp (hd cur) \<noteq> - 1" by blast
      with False \<open>inside_fence P tLat tLon r x\<close> show ?thesis
        by (simp add: window_of_run_def run_span_def within_fence_inside Let_def)
    qed
    from Cons.prems have "\<forall>p \<in> set (cur @ [x]) \<union> set xs. LocationPoint.timestamp p \<noteq> - 1"
      by auto
    from Cons.IH[OF this] step True show ?thesis by simp
  next
    case False
    from Cons.prems have "\<forall>p \<in> set [] \<union> set xs. LocationPoint.timestamp p \<noteq> - 1" by auto
    from Cons.IH[OF this] False show ?thesis
      by (cases "window_of_run cur")
         (simp add: within_fence_inside split_runs_nonempty window_of_run_def)
  qed
qed

lemma presence_loop_from_start:
  assumes "\<forall>p \<in> set xs. LocationPoint.timestamp p \<noteq> - 1"
  shows "snd (presence_loop P tLat tLon r (- 1, 0) xs) = trailing_run_span P tLat tLon r xs"
proof -
  have "presence_loop P tLat tLon r (window_of_run []) xs =
         window_of_run (last (split_runs (inside_fence P tLat tLon r) [] xs))"
    by (rule presence_loop_trailing_run) (use assms in simp)
  then show ?thesis
    by (simp add: window_of_run_def trailing_run_span_def run_span_def)
qed

text \<open>
  Claim C2, as amended. For a non-empty history without a sample stamped \<open>-1\<close>, the
  continuous-presence check accepts exactly when the span of the last run of sorted
  samples inside the geofence, that is the run ending with the latest sample (span 0 when
  the latest sample is outside), is at least the required duration.
\<close>

theorem presence_of_trailing_run:
  "h \<noteq> [] \<and> (\<forall>p \<in> set h. LocationPoint.timestamp p \<noteq> - 1) \<longrightarrow>
   (verified (verifyContinuousPresence P h tLat tLon r required) \<longleftrightarrow>
    required \<le> real_of_int (trailing_run_span P tLat tLon r (sort_by_timestamp h)) / 1000)"
proof
  assume a: "h \<noteq> [] \<and> (\<forall>p \<in> set h. LocationPoint.timestamp p \<noteq> - 1)"
  then have "\<forall>p \<in> set (sort_by_timestamp h). LocationPoint.timestamp p \<noteq> - 1"
    by (simp add: sort_by_timestamp_def)
  from presence_loop_from_start[OF this, of P tLat tLon r]
  obtain ws where "presence_loop P tLat tLon r (- 1, 0) (sort_by_timestamp h) =
      (ws, trailing_run_span P tLat tLon r (sort_by_timestamp h))"
    by (cases "presence_loop P tLat tLon r (- 1, 0) (sort_by_timestamp h)") auto
  with a show "verified (verifyContinuousPresence P h tLat tLon r required) \<longleftrightarrow>
    required \<le> real_of_int (trailing_run_span P tLat tLon r (sort_by_timestamp h)) / 1000"
    by (simp add: verifyContinuousPresence_def Let_def)
qed

lemma sort_excursion_history: "sort_by_timestamp excursion_history = excursion_history"
  by (simp add: sort_by_timestamp_def excursion_history_def)

lemma excursion_inside:
  "inside_fence demo_platform 0 0 100 \<lparr>lat = 0, lon = 0, timestamp = t\<rparr>"
  "\<not> inside_fence demo_platform 0 0 100 \<lparr>lat = 0, lon = 180, timestamp = t\<rparr>"
  using antipode_is_far(1) by (simp_all add: inside_fence_def calculateDistance_same_point)

lemma excursion_runs:
  "split_runs (inside_fence demo_platform 0 0 100) [] excursion_history =
     [[\<lparr>lat = 0, lon = 0, timestamp = 0\<rparr>, \<lparr>lat = 0, lon = 0, timestamp = 60000\<rparr>], []]"
  by (simp add: excursion_history_def excursion_inside)

theorem presence_of_trailing_run_witness:
  "excursion_history \<noteq> [] \<and>
   map LocationPoint.timestamp excursion_history = [0, 60000, 200060000] \<and>
   trailing_run_span demo_platform 0 0 100 (sort_by_timestamp excursion_history) = 0 \<and>
   \<not> verified (verifyContinuousPresence demo_platform excursion_history 0 0 100 30)"
proof -
  have a: "excursion_history \<noteq> [] \<and>
      (\<forall>p \<in> set excursion_history. LocationPoint.timestamp p \<noteq> - 1)"
    by (simp add: excursion_history_def)
  have b: "trailing_run_span demo_platform 0 0 100 (sort_by_timestamp excursion_history) = 0"
    by (simp add: sort_excursion_history trailing_run_span_def excursion_runs run_span_def)
  have c: "map LocationPoint.timestamp excursion_history = [0, 60000, 200060000]"
    by (simp add: excursion_history_def)
  from presence_of_trailing_run[of excursion_history demo_platform 0 0 100 30] a b c
  show ?thesis by simp
qed

text \<open>
  Claim C2, as stated, fails: in \<^const>\<open>excursion_history\<close> the longest run inside the
  geofence spans 60 s, which is more than the required 30 s, but the latest sample is
  outside, so the check and the pipeline reject.
\<close>

theorem longest_run_counterexample:
  "longest_run_span demo_platform 0 0 100 (sort_by_timestamp excursion_history) = 60000 \<and>
   (30::real) \<le> real_of_int (longest_run_span demo_platform 0 0 100 (sort_by_timestamp excursion_history)) / 1000 \<and>
   verifyContinuousPresence demo_platform excursion_history 0 0 100 30 =
     \<lparr>verified = False, reason = Some (InsufficientPresence 0 30), duration = Some 0\<rparr> \<and>
   verifyLocationAttestation demo_platform 1000 (demo_attestation (Some excursion_history))
     (demo_config (Some True)) =
     Inr \<lparr>valid = False, reason = Some (InsufficientPresence 0 30),
          attestation = Some (demo_attestation (Some excursion_history)),
          distance = Some (Num 0)\<rparr>"
proof -
  have a: "longest_run_span demo_platform 0 0 100 (sort_by_timestamp excursion_history) = 60000"
    by (simp add: sort_excursion_history longest_run_span_def excursion_runs run_span_def)
  have w: "within_fence (isWithinGeofence demo_platform 0 0 0 0 100)"
    "\<not> within_fence (isWithinGeofence demo_platform 0 180 0 0 100)"
    using antipode_is_far(1) by (simp_all add: isWithinGeofence_def calculateDistance_same_point)
  have loop: "presence_loop demo_platform 0 0 100 (- 1, 0) excursion_history = (- 1, 0)"
    by (simp add: excursion_history_def w)
  have len: "length excursion_history = 3" by (simp add: excursion_history_def)
  have c: "verifyContinuousPresence demo_platform excursion_history 0 0 100 30 =
     \<lparr>verified = False, reason = Some (InsufficientPresence 0 30), duration = Some 0\<rparr>"
    using len by (simp add: verifyContinuousPresence_def sort_excursion_history loop)
  have sp1: "calculateSpeed demo_platform \<lparr>lat = 0, lon = 0, timestamp = 0\<rparr>
      \<lparr>lat = 0, lon = 0, timestamp = 60000\<rparr> = Num 0"
    by (simp add: calculateSpeed_def calculateDistance_same_point)
  have "6371000 * pi \<le> 6371000 * (4::real)" using pi_less_4 by simp
  then have sp2: "\<not> number_gt (calculateSpeed demo_platform \<lparr>lat = 0, lon = 0, timestamp = 60000\<rparr>
      \<lparr>lat = 0, lon = 180, timestamp = 200060000\<rparr>) 200"
    by (simp add: calculateSpeed_def calculateDistance_antipodal)
  have mv: "plausible (checkMovementPlausibility demo_platform excursion_history (Some 200))"
    unfolding checkMovementPlausibility_plausible sort_excursion_history
    using sp1 sp2 by (simp add: excursion_history_def consecutive_pairs_def)
  have d: "verifyLocationAttestation demo_platform 1000 (demo_attestation (Some excursion_history))
     (demo_config (Some True)) =
     Inr \<lparr>valid = False, reason = Some (InsufficientPresence 0 30),
          attestation = Some (demo_attestation (Some excursion_history)),
          distance = Some (Num 0)\<rparr>"
    using len c mv
    unfolding verifyLocationAttestation_def demo_signature_valid
    by (simp add: Let_def isAttestationFresh_def isWithinTimeWindow_def isWithinGeofence_def
        demo_attestation_def demo_config_def calculateDistance_same_point)
  show ?thesis using a c d by simp
qed

section \<open>Absent and empty movement history\<close>

text \<open>
  Claim C10. With continuous presence required and the first four checks passed, an
  attestation without a movement history is accepted, the presence check being skipped,
  while an attestation with an empty movement history is rejected for want of a movement
  history.
\<close>

theorem absent_versus_empty_history:
  "requireContinuousPresence config = Some True \<and>
   verifyAttestationSignature P att = Inr True \<and>
   isAttestationFresh now (LocationAttestation.timestamp att)
     (Some (case maxAttestationAgeSec config of None \<Rightarrow> 300 | Some m \<Rightarrow> m)) \<and>
   isWithinTimeWindow (LocationAttestation.timestamp att) (windowStart config) (windowEnd config) \<and>
   within_fence (isWithinGeofence P (latitude att) (longitude att)
      (targetLat config) (targetLon config) (radiusMeters config)) \<longrightarrow>
   (movementHistory att = None \<longrightarrow>
      verifyLocationAttestation P now att config =
        Inr \<lparr>valid = True, reason = None, attestation = Some att,
             distance = Some (calculateDistance P (latitude att) (longitude att)
                                (targetLat config) (targetLon config))\<rparr>) \<and>
   (movementHistory att = Some [] \<longrightarrow>
      verifyLocationAttestation P now att config =
        Inr \<lparr>valid = False, reason = Some NoMovementHistory, attestation = Some att,
             distance = Some (calculateDistance P (latitude att) (longitude att)
                                (targetLat config) (targetLon config))\<rparr>)"
  by (auto simp: verifyLocationAttestation_def Let_def isWithinGeofence_def
      verifyContinuousPresence_def)

theorem absent_versus_empty_history_witness:
  "verifyLocationAttestation demo_platform 1000 (demo_attestation None) (demo_config (Some True)) =
     Inr \<lparr>valid = True, reason = None, attestation = Some (demo_attestation None),
          distance = Some (Num 0)\<rparr> \<and>
   verifyLocationAttestation demo_platform 1000 (demo_attestation (Some []))
       (demo_config (Some True)) =
     Inr \<lparr>valid = False, reason = Some NoMovementHistory,
          attestation = Some (demo_attestation (Some [])), distance = Some (Num 0)\<rparr>"
proof -
  have pre: "requireContinuousPresence (demo_config (Some True)) = Some True \<and>
   verifyAttestationSignature demo_platform (demo_attestation h) = Inr True \<and>
   isAttestationFresh 1000 (LocationAttestation.timestamp (demo_attestation h))
     (Some (case maxAttestationAgeSec (demo_config (Some True)) of None \<Rightarrow> 300 | Some m \<Rightarrow> m)) \<and>
   isWithinTimeWindow (LocationAttestation.timestamp (demo_attestation h))
     (windowStart (demo_config (Some True))) (windowEnd (demo_config (Some True))) \<and>
   within_fence (isWithinGeofence demo_platform (latitude (demo_attestation h))
      (longitude (demo_attestation h))
      (targetLat (demo_config (Some True))) (targetLon (demo_config (Some True)))
      (radiusMeters (demo_config (Some True))))" for h
    using demo_signature_valid[of h]
    by (simp add: demo_config_def demo_attestation_def isAttestationFresh_def
        isWithinTimeWindow_def isWithinGeofence_def calculateDistance_same_point)
  have d: "calculateDistance demo_platform (latitude (demo_attestation h))
      (longitude (demo_attestation h))
      (targetLat (demo_config (Some True))) (targetLon (demo_config (Some True))) = Num 0" for h
    by (simp add: demo_config_def demo_attestation_def calculateDistance_same_point)
  have h1: "movementHistory (demo_attestation None) = None"
    and h2: "movementHistory (demo_attestation (Some [])) = Some []"
    by (simp_all add: demo_attestation_def)
  from absent_versus_empty_history[of "demo_config (Some True)" demo_platform
      "demo_attestation None" 1000] pre[of None] d[of None] h1
  have a: "verifyLocationAttestation demo_platform 1000 (demo_attestation None)
      (demo_config (Some True)) =
     Inr \<lparr>valid = True, reason = None, attestation = Some (demo_attestation None),
          distance = Some (Num 0)\<rparr>" by simp
  from absent_versus_empty_history[of "demo_config (Some True)" demo_platform
      "demo_attestation (Some [])" 1000] pre[of "Some []"] d[of "Some []"] h2
  have b: "verifyLocationAttestation demo_platform 1000 (demo_attestation (Some []))
       (demo_config (Some True)) =
     Inr \<lparr>valid = False, reason = Some NoMovementHistory,
          attestation = Some (demo_attestation (Some [])), distance = Some (Num 0)\<rparr>" by simp
  from a b show ?thesis by simp
qed

section \<open>HKDF\<close>

lemma hkdf_blocks_Suc:
  "hkdf_blocks P prk info (Suc k) = hkdf_blocks P prk info k @ hkdf_T P prk info (Suc k)"
  by (simp add: hkdf_blocks_def)

lemma hkdfExpand_loop_blocks:
  "k \<le> nat n \<Longrightarrow>
   hkdfExpand_loop P prk info n (int k + 1) (hkdf_T P prk info k) (hkdf_blocks P prk info k) =
     hkdf_blocks P prk info (nat n)"
proof (induction "nat n - k" arbitrary: k)
  case 0
  then have "k = nat n" by simp
  then have "\<not> int k + 1 \<le> n" by linarith
  then show ?case
    using \<open>k = nat n\<close> by (subst hkdfExpand_loop.simps) simp
next
  case (Suc d)
  then have lt: "k < nat n" by simp
  then have le: "int k + 1 \<le> n" by linarith
  have w: "(word_of_int (int k + 1) :: byte) = of_nat (Suc k)"
    by (simp add: add.commute)
  have "hkdfExpand_loop P prk info n (int k + 1) (hkdf_T P prk info k) (hkdf_blocks P prk info k) =
      hkdfExpand_loop P prk info n (int (Suc k) + 1) (hkdf_T P prk info (Suc k))
        (hkdf_blocks P prk info (Suc k))"
    using le
    by (subst hkdfExpand_loop.simps) (simp add: Let_def hkdf_blocks_Suc w add.commute)
  also have "\<dots> = hkdf_blocks P prk info (nat n)"
    using Suc lt by (intro Suc.hyps(1)) simp_all
  finally show ?case .
qed

lemma hkdfExpand_loop_start:
  "hkdfExpand_loop P prk info n 1 [] [] = hkdf_blocks P prk info (nat n)"
  using hkdfExpand_loop_blocks[of 0 n P prk info] by (simp add: hkdf_blocks_def)

lemma block_count_too_large: "255 < \<lceil>real_of_int len / 32\<rceil> \<longleftrightarrow> 255 * 32 < len"
proof -
  have "255 < \<lceil>real_of_int len / 32\<rceil> \<longleftrightarrow> of_int 255 < real_of_int len / 32"
    by (simp only: less_ceiling_iff)
  also have "\<dots> \<longleftrightarrow> 255 * 32 < len" by auto
  finally show ?thesis .
qed

lemma hkdfExpand_blocks:
  "hkdfExpand P prk info len =
     (if 255 * 32 < len then Inl OutputLengthTooLarge
      else Inr (take (nat len) (hkdf_blocks P prk info (nat \<lceil>real_of_int len / 32\<rceil>))))"
proof (cases "len < 0")
  case True
  then have "\<lceil>real_of_int len / 32\<rceil> \<le> 0"
    by (simp add: ceiling_le_iff divide_le_0_iff)
  then have "nat \<lceil>real_of_int len / 32\<rceil> = 0" by simp
  with True show ?thesis
    unfolding hkdfExpand_def Let_def
    by (simp add: block_count_too_large hkdfExpand_loop_start slice0_def hkdf_blocks_def)
next
  case False
  then show ?thesis
    unfolding hkdfExpand_def Let_def
    by (simp add: block_count_too_large hkdfExpand_loop_start slice0_def)
qed

lemma length_hkdf_T:
  "\<forall>k m. length (hmac_sha256 P k m) = 32 \<Longrightarrow> length (hkdf_T P prk info (Suc i)) = 32"
  by simp

lemma length_hkdf_blocks:
  "\<forall>k m. length (hmac_sha256 P k m) = 32 \<Longrightarrow> length (hkdf_blocks P prk info n) = 32 * n"
  by (induction n) (simp_all add: hkdf_blocks_Suc, simp add: hkdf_blocks_def)

lemma blocks_cover_length:
  "0 \<le> len \<Longrightarrow> nat len \<le> 32 * nat \<lceil>real_of_int len / 32\<rceil>"
proof -
  assume "0 \<le> len"
  have "real_of_int len / 32 \<le> of_int \<lceil>real_of_int len / 32\<rceil>" by (rule le_of_int_ceiling)
  then have "real_of_int len \<le> 32 * real_of_int \<lceil>real_of_int len / 32\<rceil>" by linarith
  then have "real_of_int len \<le> real_of_int (32 * \<lceil>real_of_int len / 32\<rceil>)" by simp
  then have "len \<le> 32 * \<lceil>real_of_int len / 32\<rceil>" by (simp only: of_int_le_iff)
  with \<open>0 \<le> len\<close> show ?thesis by linarith
qed

text \<open>
  Claim C9. HKDF-Expand returns the concatenation of the blocks
  \<open>T(i) = HMAC(PRK, T(i - 1) || info || byte(i))\<close>, \<open>T(0)\<close> empty, cut to the requested
  length; it fails exactly when the requested length exceeds \<open>255 * 32\<close>, and with a
  32-byte HMAC the output has exactly the requested number of bytes.
\<close>

theorem hkdf_expand_blocks:
  "hkdfExpand P prk info len =
     (if 255 * 32 < len then Inl OutputLengthTooLarge
      else Inr (take (nat len) (hkdf_blocks P prk info (nat \<lceil>real_of_int len / 32\<rceil>)))) \<and>
   ((\<exists>e. hkdfExpand P prk info len = Inl e) \<longleftrightarrow> 255 * 32 < len) \<and>
   ((\<forall>k m. length (hmac_sha256 P k m) = 32) \<and> 0 \<le> len \<and> len \<le> 255 * 32 \<longrightarrow>
      (\<exists>okm. hkdfExpand P prk info len = Inr okm \<and> int (length okm) = len))"
proof -
  have a: "hkdfExpand P prk info len =
     (if 255 * 32 < len then Inl OutputLengthTooLarge
      else Inr (take (nat len) (hkdf_blocks P prk info (nat \<lceil>real_of_int len / 32\<rceil>))))"
    by (rule hkdfExpand_blocks)
  have b: "(\<exists>e. hkdfExpand P prk info len = Inl e) \<longleftrightarrow> 255 * 32 < len"
    by (simp add: hkdfExpand_blocks)
  have c: "\<exists>okm. hkdfExpand P prk info len = Inr okm \<and> int (length okm) = len"
    if h: "(\<forall>k m. length (hmac_sha256 P k m) = 32) \<and> 0 \<le> len \<and> len \<le> 255 * 32"
  proof -
    from h have "length (hkdf_blocks P prk info (nat \<lceil>real_of_int len / 32\<rceil>)) =
        32 * nat \<lceil>real_of_int len / 32\<rceil>"
      by (simp add: length_hkdf_blocks)
    moreover from h have "nat len \<le> 32 * nat \<lceil>real_of_int len / 32\<rceil>"
      by (simp add: blocks_cover_length)
    ultimately have "length (take (nat len)
        (hkdf_blocks P prk info (nat \<lceil>real_of_int len / 32\<rceil>))) = nat len"
      by simp
    with h show ?thesis by (simp add: hkdfExpand_blocks)
  qed
  from a b c show ?thesis by blast
qed

theorem hkdf_expand_blocks_witness:
  "(\<forall>k m. length (hmac_sha256 demo_platform k m) = 32) \<and> (0::int) \<le> 40 \<and> (40::int) \<le> 255 * 32 \<and>
   (\<exists>okm. hkdfExpand demo_platform [1, 2] [3] 40 = Inr okm \<and> int (length okm) = 40) \<and>
   hkdfExpand demo_platform [1, 2] [3] 8161 = Inl OutputLengthTooLarge"
proof -
  have "(\<exists>e. hkdfExpand demo_platform [1, 2] [3] 8161 = Inl e) \<longrightarrow>
      hkdfExpand demo_platform [1, 2] [3] 8161 = Inl OutputLengthTooLarge"
    using hkdf_expand_blocks[of demo_platform "[1, 2]" "[3]" 8161] by simp
  with hkdf_expand_blocks[of demo_platform "[1, 2]" "[3]" 8161]
  have big: "hkdfExpand demo_platform [1, 2] [3] 8161 = Inl OutputLengthTooLarge" by simp
  have "(0::int) \<le> 40 \<and> (40::int) \<le> 255 * 32" by simp
  with hkdf_expand_blocks[of demo_platform "[1, 2]" "[3]" 40] demo_hmac_length big
  show ?thesis by blast
qed

lemma hkdf_length_32:
  assumes "\<forall>k m. length (hmac_sha256 P k m) = 32"
  shows "\<exists>key. hkdf P ikm salt info 32 = Inr key \<and> length key = 32"
proof -
  have "\<exists>okm. hkdfExpand P prk info' 32 = Inr okm \<and> int (length okm) = 32" for prk info'
    using assms by (simp add: hkdfExpand_blocks length_hkdf_blocks)
  then show ?thesis unfolding hkdf_def Let_def by simp
qed

text \<open>
  Claim C7. With a 32-byte HMAC, the derivation of the location-bound key returns a key
  of 32 bytes, and any invocation whose shared secret and six binding fields are the same
  returns the same key.
\<close>

theorem key_derivation_deterministic:
  "(\<forall>k m. length (hmac_sha256 P k m) = 32) \<longrightarrow>
   (\<exists>key. deriveLocationBoundKey P sharedSecret
             (LocationBinding.latitude b) (LocationBinding.longitude b)
             (LocationBinding.radiusMeters b) (LocationBinding.windowStart b)
             (LocationBinding.windowEnd b) (nonce b) = Inr key \<and>
          length key = 32 \<and>
          (\<forall>sharedSecret' b'.
             sharedSecret' = sharedSecret \<and>
             LocationBinding.latitude b' = LocationBinding.latitude b \<and>
             LocationBinding.longitude b' = LocationBinding.longitude b \<and>
             LocationBinding.radiusMeters b' = LocationBinding.radiusMeters b \<and>
             LocationBinding.windowStart b' = LocationBinding.windowStart b \<and>
             LocationBinding.windowEnd b' = LocationBinding.windowEnd b \<and>
             nonce b' = nonce b \<longrightarrow>
             deriveLocationBoundKey P sharedSecret'
               (LocationBinding.latitude b') (LocationBinding.longitude b')
               (LocationBinding.radiusMeters b') (LocationBinding.windowStart b')
               (LocationBinding.windowEnd b') (nonce b') = Inr key))"
proof
  assume h: "\<forall>k m. length (hmac_sha256 P k m) = 32"
  from hkdf_length_32[OF h] obtain key where
    "deriveLocationBoundKey P sharedSecret
             (LocationBinding.latitude b) (LocationBinding.longitude b)
             (LocationBinding.radiusMeters b) (LocationBinding.windowStart b)
             (LocationBinding.windowEnd b) (nonce b) = Inr key \<and> length key = 32"
    unfolding deriveLocationBoundKey_def Let_def by blast
  then show "\<exists>key. deriveLocationBoundKey P sharedSecret
             (LocationBinding.latitude b) (LocationBinding.longitude b)
             (LocationBinding.radiusMeters b) (LocationBinding.windowStart b)
             (LocationBinding.windowEnd b) (nonce b) = Inr key \<and>
          length key = 32 \<and>
          (\<forall>sharedSecret' b'.
             sharedSecret' = sharedSecret \<and>
             LocationBinding.latitude b' = LocationBinding.latitude b \<and>
             LocationBinding.longitude b' = LocationBinding.longitude b \<and>
             LocationBinding.radiusMeters b' = LocationBinding.radiusMeters b \<and>
             LocationBinding.windowStart b' = LocationBinding.windowStart b \<and>
             LocationBinding.windowEnd b' = LocationBinding.windowEnd b \<and>
             nonce b' = nonce b \<longrightarrow>
             deriveLocationBoundKey P sharedSecret'
               (LocationBinding.latitude b') (LocationBinding.longitude b')
               (LocationBinding.radiusMeters b') (LocationBinding.windowStart b')
               (LocationBinding.windowEnd b') (nonce b') = Inr key)"
    by auto
qed

theorem key_derivation_deterministic_witness:
  "(\<forall>k m. length (hmac_sha256 demo_platform k m) = 32) \<and>
   (\<exists>key. deriveLocationBoundKey demo_platform ''c2VjcmV0'' 18.5204 73.8567 100 1000 2000
            ''test-nonce'' = Inr key \<and> length key = 32)"
proof -
  from key_derivation_deterministic[of demo_platform "''c2VjcmV0''" demo_binding]
    demo_hmac_length
  have "\<exists>key. deriveLocationBoundKey demo_platform ''c2VjcmV0''
             (LocationBinding.latitude demo_binding) (LocationBinding.longitude demo_binding)
             (LocationBinding.radiusMeters demo_binding) (LocationBinding.windowStart demo_binding)
             (LocationBinding.windowEnd demo_binding) (nonce demo_binding) = Inr key \<and>
          length key = 32"
    by blast
  then show ?thesis using demo_hmac_length by (simp add: demo_binding_def)
qed

section \<open>Sealing and unsealing\<close>

lemma aesGcmEncrypt_properties:
  "fst (aesGcmEncrypt P plaintext key rng) ''wrappedKey'' = None"
  by (simp add: aesGcmEncrypt_def Let_def split: prod.splits)

lemma wrapKey_has_no_wrappedKey: "fst (wrapKey P keyToWrap wrappingKey rng) ''wrappedKey'' = None"
  by (simp add: wrapKey_def aesGcmEncrypt_properties)

lemma wrapKey_result_has_no_wrappedKey:
  "wrapKey P keyToWrap wrappingKey rng = (obj, rng') \<Longrightarrow> obj ''wrappedKey'' = None"
  using wrapKey_has_no_wrappedKey[of P keyToWrap wrappingKey rng] by simp

lemma handleEncrypt_wrappedKey:
  "handleEncrypt P message sharedSecret la lo r now hours rng = Inr stored \<Longrightarrow>
   wrappedKey stored = None"
  unfolding handleEncrypt_def Let_def
  by (auto split: prod.splits sum.splits dest: wrapKey_result_has_no_wrappedKey)

lemma unwrapKey_undefined: "unwrapKey P None wrappingKey n t = Inl InvalidEncoding"
  by (simp add: unwrapKey_def aesGcmDecrypt_def decodeBase64_def)

lemma handleUnlock_without_wrappedKey:
  "wrappedKey stored = None \<Longrightarrow> \<exists>e. handleUnlock P stored sharedSecret userLat userLon = Inl e"
  unfolding handleUnlock_def Let_def
  by (simp add: unwrapKey_undefined split: sum.splits)

lemma handleUnlock_without_wrappedKey_at_target:
  assumes "wrappedKey stored = None"
    and "\<forall>k m. length (hmac_sha256 P k m) = 32"
    and "\<not> number_gt (calculateDistance P userLat userLon
             (LocationBinding.latitude (locationBinding stored))
             (LocationBinding.longitude (locationBinding stored)))
           (LocationBinding.radiusMeters (locationBinding stored))"
  shows "handleUnlock P stored sharedSecret userLat userLon = Inl (DecryptionFailed InvalidEncoding)"
proof -
  from hkdf_length_32[OF assms(2)] obtain key where
    "deriveLocationBoundKey P sharedSecret
       (LocationBinding.latitude (locationBinding stored))
       (LocationBinding.longitude (locationBinding stored))
       (LocationBinding.radiusMeters (locationBinding stored))
       (LocationBinding.windowStart (locationBinding stored))
       (LocationBinding.windowEnd (locationBinding stored))
       (nonce (locationBinding stored)) = Inr key"
    unfolding deriveLocationBoundKey_def Let_def by blast
  with assms(1,3) show ?thesis
    unfolding handleUnlock_def Let_def by (simp add: unwrapKey_undefined)
qed

lemma handleEncrypt_binding:
  "handleEncrypt P message sharedSecret la lo r now hours rng = Inr stored \<Longrightarrow>
   LocationBinding.latitude (locationBinding stored) = la \<and>
   LocationBinding.longitude (locationBinding stored) = lo \<and>
   LocationBinding.radiusMeters (locationBinding stored) = r"
  unfolding handleEncrypt_def Let_def
  by (auto split: prod.splits sum.splits)

lemma handleEncrypt_succeeds:
  assumes "\<forall>k m. length (hmac_sha256 P k m) = 32"
  shows "\<exists>stored. handleEncrypt P message sharedSecret la lo r now hours rng = Inr stored"
proof -
  have "\<exists>key. deriveLocationBoundKey P sharedSecret la lo r ws we nc = Inr key" for ws we nc
    using hkdf_length_32[OF assms] unfolding deriveLocationBoundKey_def Let_def by blast
  then have "deriveLocationBoundKey P sharedSecret la lo r ws we nc \<noteq> Inl e" for ws we nc e
    by (metis sum.distinct(1))
  then show ?thesis
    unfolding handleEncrypt_def Let_def
    by (auto split: prod.splits sum.splits)
qed

text \<open>
  Claim C8 at a concrete input. The message sealed by \<^const>\<open>handleEncrypt\<close> has no
  wrapped key, since \<^const>\<open>wrapKey\<close> returns it under the property \<^verbatim>\<open>ciphertext\<close>,
  and \<^const>\<open>handleUnlock\<close> fails on it instead of recovering the plaintext.
\<close>

theorem sealed_message_does_not_unseal:
  "(case handleEncrypt demo_platform ''hello'' ''c2VjcmV0'' 0 0 100 1000 1 demo_random of
      Inl e \<Rightarrow> False
    | Inr stored \<Rightarrow>
        wrappedKey stored = None \<and>
        handleUnlock demo_platform stored ''c2VjcmV0'' 0 0 =
          Inl (DecryptionFailed InvalidEncoding))"
proof -
  from handleEncrypt_succeeds[OF demo_hmac_length] obtain stored where
    s: "handleEncrypt demo_platform ''hello'' ''c2VjcmV0'' 0 0 100 1000 1 demo_random = Inr stored"
    by blast
  from handleEncrypt_wrappedKey[OF s] have w: "wrappedKey stored = None" .
  from handleEncrypt_binding[OF s] have
    "\<not> number_gt (calculateDistance demo_platform 0 0
             (LocationBinding.latitude (locationBinding stored))
             (LocationBinding.longitude (locationBinding stored)))
           (LocationBinding.radiusMeters (locationBinding stored))"
    by (simp add: calculateDistance_same_point)
  from handleUnlock_without_wrappedKey_at_target[OF w demo_hmac_length this] s w
  show ?thesis by simp
qed

text \<open>
  Read under the property \<^verbatim>\<open>ciphertext\<close>, the output of \<^const>\<open>aesGcmEncrypt\<close> and of
  \<^const>\<open>wrapKey\<close> does decrypt to the input, provided the cipher and the text codecs
  are lossless.
\<close>

lemma aesGcm_roundtrip:
  assumes "\<forall>k n p. aes256gcm_decrypt P k n (fst (aes256gcm_encrypt P k n p))
             (snd (aes256gcm_encrypt P k n p)) = Some p"
    and "\<forall>b. base64_decode P (base64_encode P b) = b"
    and "utf8_decode P (utf8_encode P plaintext) = plaintext"
  shows "aesGcmDecrypt P (fst (aesGcmEncrypt P plaintext key rng) ''ciphertext'') key
           (fst (aesGcmEncrypt P plaintext key rng) ''nonce'')
           (fst (aesGcmEncrypt P plaintext key rng) ''authTag'') = Inr plaintext"
proof -
  obtain n rng' where r: "randomBytes 12 rng = (n, rng')" by (cases "randomBytes 12 rng")
  obtain c t where e: "aes256gcm_encrypt P key n (utf8_encode P plaintext) = (c, t)"
    by (cases "aes256gcm_encrypt P key n (utf8_encode P plaintext)")
  from assms(1) e have "aes256gcm_decrypt P key n c t = Some (utf8_encode P plaintext)"
    by (metis fst_conv snd_conv)
  with r e assms(2,3) show ?thesis
    by (simp add: aesGcmEncrypt_def aesGcmDecrypt_def decodeBase64_def)
qed

lemma wrapKey_roundtrip_under_ciphertext:
  assumes "\<forall>k n p. aes256gcm_decrypt P k n (fst (aes256gcm_encrypt P k n p))
             (snd (aes256gcm_encrypt P k n p)) = Some p"
    and "\<forall>b. base64_decode P (base64_encode P b) = b"
    and "utf8_decode P (utf8_encode P (base64_encode P keyToWrap)) = base64_encode P keyToWrap"
  shows "unwrapKey P (fst (wrapKey P keyToWrap wrappingKey rng) ''ciphertext'') wrappingKey
           (fst (wrapKey P keyToWrap wrappingKey rng) ''nonce'')
           (fst (wrapKey P keyToWrap wrappingKey rng) ''authTag'') = Inr keyToWrap"
  using aesGcm_roundtrip[OF assms(1,2,3), of wrappingKey rng] assms(2)
  by (simp add: unwrapKey_def wrapKey_def)

end
